theory Spec2Isabelle
  imports Complex_Main
begin

section \<open>Foundation layout tool: components and findings\<close>

text \<open>
  The program is one Streamlit script, \<^verbatim>\<open>streamlit_app.py\<close>. Its numbers are Python
  floats and NumPy float64 values; they are modelled as \<^typ>\<open>real\<close>, so rounding is not
  part of the model. The integer sliders (tendon and grout diameters in millimetres) give
  Python ints, modelled as \<^typ>\<open>int\<close>; ids come from \<^verbatim>\<open>enumerate\<close> and \<^verbatim>\<open>len\<close> and are
  modelled as \<^typ>\<open>nat\<close>.

  A component is a dict literal. The keys \<^verbatim>\<open>id, x, y, diameter, type\<close> of a tendon are
  the fields \<open>t_id, t_x, t_y, t_diameter, t_type\<close>; a grout connection has
  \<open>g_id, g_x, g_y, g_diameter\<close> and an access shaft \<open>a_id, a_x, a_y, a_diameter\<close>
  (the shaft's diameter is a float in metres). No statement of the script writes to a
  component after it is built.
\<close>

record tendon =
  t_id :: nat
  t_x :: real
  t_y :: real
  t_diameter :: int
  t_type :: string

record grout =
  g_id :: nat
  g_x :: real
  g_y :: real
  g_diameter :: int

record shaft =
  a_id :: nat
  a_x :: real
  a_y :: real
  a_diameter :: real

text \<open>
  The validation messages are f-strings. Each constructor stands for one of the three
  templates and carries the values the template interpolates:
  \<^item> \<^verbatim>\<open>f"Tendon T{tendon['id']} too close to wall"\<close>
  \<^item> \<^verbatim>\<open>f"Tendons T{i} and T{j} too close ({dist:.2f}m < {min_dist:.2f}m)"\<close>
  \<^item> \<^verbatim>\<open>f"Grout G{grout['id']} near Tendon T{tendon['id']}"\<close>
\<close>

datatype finding =
  TendonTooCloseToWall nat
  | TendonsTooClose nat nat real real
  | GroutNearTendon nat nat

section \<open>Constraint validation (lines 200 to 226)\<close>

text \<open>Check 1. \<^verbatim>\<open>distance = np.sqrt(tendon['x']**2 + tendon['y']**2)\<close>\<close>

definition distance :: "tendon \<Rightarrow> real" where
  "distance t = sqrt ((t_x t)^2 + (t_y t)^2)"

definition check_containment :: "real \<Rightarrow> real \<Rightarrow> tendon list \<Rightarrow> finding list" where
  "check_containment foundation_diameter wall_thickness ts =
     [TendonTooCloseToWall (t_id t). t \<leftarrow> ts,
        distance t + real_of_int (t_diameter t) / 1000 / 2
          > foundation_diameter / 2 - wall_thickness]"

text \<open>
  Check 2, with the locals \<^verbatim>\<open>dist\<close> and \<^verbatim>\<open>min_dist\<close> of the loop body as
  \<open>tendon_dist\<close> and \<open>tendon_min_dist\<close>. The outer loop enumerates the tendons
  from 0, the inner loop enumerates the slice \<^verbatim>\<open>tendons[i+1:]\<close> from \<open>i + 1\<close>;
  the message interpolates the loop indices \<open>i\<close> and \<open>j\<close>, not the \<^verbatim>\<open>id\<close>
  fields.
\<close>

definition min_clearance :: real where
  "min_clearance = 3 / 10"

definition tendon_dist :: "tendon \<Rightarrow> tendon \<Rightarrow> real" where
  "tendon_dist t1 t2 = sqrt ((t_x t1 - t_x t2)^2 + (t_y t1 - t_y t2)^2)"

definition tendon_min_dist :: "tendon \<Rightarrow> tendon \<Rightarrow> real" where
  "tendon_min_dist t1 t2 =
     real_of_int (t_diameter t1 + t_diameter t2) / 1000 / 2 + min_clearance"

definition tendon_pairs :: "tendon list \<Rightarrow> ((nat \<times> tendon) \<times> (nat \<times> tendon)) list" where
  "tendon_pairs ts =
     [((i, t1), (j, t2)). (i, t1) \<leftarrow> List.enumerate 0 ts,
        (j, t2) \<leftarrow> List.enumerate (i + 1) (drop (i + 1) ts)]"

definition check_clearance :: "tendon list \<Rightarrow> finding list" where
  "check_clearance ts =
     [TendonsTooClose i j (tendon_dist t1 t2) (tendon_min_dist t1 t2).
        ((i, t1), (j, t2)) \<leftarrow> tendon_pairs ts, tendon_dist t1 t2 < tendon_min_dist t1 t2]"

text \<open>Check 3, over every grout connection and every tendon.\<close>

definition grout_dist :: "grout \<Rightarrow> tendon \<Rightarrow> real" where
  "grout_dist g t = sqrt ((g_x g - t_x t)^2 + (g_y g - t_y t)^2)"

definition grout_min_dist :: "grout \<Rightarrow> tendon \<Rightarrow> real" where
  "grout_min_dist g t =
     real_of_int (g_diameter g) / 1000 / 2 + real_of_int (t_diameter t) / 1000 / 2 + 2 / 10"

definition check_grout :: "grout list \<Rightarrow> tendon list \<Rightarrow> finding list" where
  "check_grout gs ts =
     [GroutNearTendon (g_id g) (t_id t). g \<leftarrow> gs, t \<leftarrow> ts,
        grout_dist g t < grout_min_dist g t]"

text \<open>
  The two lists the script builds: \<^verbatim>\<open>violations\<close> receives the findings of checks 1 and 2
  in this order, \<^verbatim>\<open>warnings\<close> those of check 3.
\<close>

definition violations :: "real \<Rightarrow> real \<Rightarrow> tendon list \<Rightarrow> finding list" where
  "violations foundation_diameter wall_thickness ts =
     check_containment foundation_diameter wall_thickness ts @ check_clearance ts"

definition warnings :: "grout list \<Rightarrow> tendon list \<Rightarrow> finding list" where
  "warnings gs ts = check_grout gs ts"

definition validate ::
  "real \<Rightarrow> real \<Rightarrow> tendon list \<Rightarrow> grout list \<Rightarrow> finding list \<times> finding list" where
  "validate foundation_diameter wall_thickness ts gs =
     (violations foundation_diameter wall_thickness ts, warnings gs ts)"

section \<open>Estimates (lines 244 to 255)\<close>

text \<open>
  \<^verbatim>\<open>tendon_count = len(tendons)\<close>, \<^verbatim>\<open>total_steel = tendon_count * steel_per_tendon\<close>; the
  cost shown is \<^verbatim>\<open>total_steel * steel_cost_per_kg\<close> and the score is
  \<^verbatim>\<open>min(10, 2 + tendon_count * 0.3 + len(grout_connections) * 0.5)\<close>. The metric widgets
  format these numbers; the formatting is not modelled.
\<close>

definition steel_per_tendon :: nat where
  "steel_per_tendon = 150"

definition steel_cost_per_kg :: real where
  "steel_cost_per_kg = 35 / 10"

definition total_steel :: "tendon list \<Rightarrow> nat" where
  "total_steel ts = length ts * steel_per_tendon"

definition steel_cost :: "tendon list \<Rightarrow> real" where
  "steel_cost ts = real (total_steel ts) * steel_cost_per_kg"

definition complexity :: "tendon list \<Rightarrow> grout list \<Rightarrow> real" where
  "complexity ts gs = min 10 (2 + real (length ts) * (3 / 10) + real (length gs) * (5 / 10))"

definition estimate :: "tendon list \<Rightarrow> grout list \<Rightarrow> nat \<times> real \<times> real" where
  "estimate ts gs = (total_steel ts, steel_cost ts, complexity ts gs)"

section \<open>Circular pattern (lines 58 to 70)\<close>

text \<open>
  \<^verbatim>\<open>np.linspace(start, stop, num, endpoint=False)\<close> returns the \<open>num\<close> values
  \<open>start + k * step\<close> for \<open>k = 0, ..., num - 1\<close> with \<open>step = (stop - start) / num\<close>.
  The number input gives \<open>num_tendons\<close> as an integer between 4 and 24; it is modelled
  as a \<^typ>\<open>nat\<close>.
\<close>

definition linspace :: "real \<Rightarrow> real \<Rightarrow> nat \<Rightarrow> real list" where
  "linspace start stop num = map (\<lambda>k. start + real k * ((stop - start) / real num)) [0..<num]"

text \<open>The dict the loop body appends for index \<open>i\<close> and angle \<open>angle\<close>.\<close>

definition pattern_tendon :: "real \<Rightarrow> int \<Rightarrow> nat \<Rightarrow> real \<Rightarrow> tendon" where
  "pattern_tendon radius tendon_diameter i angle =
     \<lparr>t_id = i, t_x = radius * cos angle, t_y = radius * sin angle,
      t_diameter = tendon_diameter, t_type = ''vertical''\<rparr>"

section \<open>CSV export (lines 283 to 291)\<close>

text \<open>
  \<^verbatim>\<open>pd.DataFrame(tendons).to_csv(index=False)\<close>. A tendon enters as the dict it is, with
  its keys in the order of the dict literal. \<^verbatim>\<open>DataFrame\<close> takes the column labels from
  the keys in order of first appearance and one row per dict, a missing key giving an
  empty cell; \<^verbatim>\<open>to_csv\<close> writes the header line and one line per row, every line ended by
  a newline. How pandas prints one cell (number formatting, quoting) is library code and
  enters as the parameter \<open>render\<close>.
\<close>

datatype cell = IntCell int | FloatCell real | StrCell string

definition tendon_dict :: "tendon \<Rightarrow> (string \<times> cell) list" where
  "tendon_dict t =
     [(''id'', IntCell (int (t_id t))), (''x'', FloatCell (t_x t)), (''y'', FloatCell (t_y t)),
      (''diameter'', IntCell (t_diameter t)), (''type'', StrCell (t_type t))]"

record data_frame =
  columns :: "string list"
  rows :: "cell option list list"

definition DataFrame :: "(string \<times> cell) list list \<Rightarrow> data_frame" where
  "DataFrame ds =
     (let cols = foldl (\<lambda>cs d. cs @ filter (\<lambda>k. k \<notin> set cs) (remdups (map fst d))) [] ds
      in \<lparr>columns = cols, rows = map (\<lambda>d. map (map_of d) cols) ds\<rparr>)"

fun join :: "string \<Rightarrow> string list \<Rightarrow> string" where
  "join sep [] = []"
| "join sep [x] = x"
| "join sep (x # y # ys) = x @ sep @ join sep (y # ys)"

definition render_cell :: "(cell \<Rightarrow> string) \<Rightarrow> cell option \<Rightarrow> string" where
  "render_cell render c = (case c of None \<Rightarrow> [] | Some v \<Rightarrow> render v)"

definition to_csv :: "(cell \<Rightarrow> string) \<Rightarrow> data_frame \<Rightarrow> string" where
  "to_csv render df =
     concat (map (\<lambda>line. line @ [CHR 0x0A])
       (join '','' (columns df) # map (\<lambda>r. join '','' (map (render_cell render) r)) (rows df)))"

text \<open>The download button is only built when the tendon list is not empty.\<close>

definition export_tendons_csv :: "(cell \<Rightarrow> string) \<Rightarrow> tendon list \<Rightarrow> string option" where
  "export_tendons_csv render ts =
     (if length ts > 0 then Some (to_csv render (DataFrame (map tendon_dict ts))) else None)"

section \<open>Session state\<close>

text \<open>
  \<^verbatim>\<open>st.session_state\<close> holds \<^verbatim>\<open>current_layout\<close>, a dict, and \<^verbatim>\<open>layouts\<close>, a list of
  dicts. A layout dict holds three Python lists. Dicts and lists are mutable objects, so
  they live in a store and are named by references: \<open>dicts\<close> maps a reference to a
  layout dict, \<open>tendon_lists\<close>, \<open>grout_lists\<close> and \<open>shaft_lists\<close> map a reference to a
  list. Every object the script creates (a \<^verbatim>\<open>[]\<close>, a \<^verbatim>\<open>.copy()\<close>, a dict literal) takes the
  next unused reference \<open>next_ref\<close>. The keys \<^verbatim>\<open>timestamp\<close>, \<^verbatim>\<open>foundation_diameter\<close> and
  \<^verbatim>\<open>wall_thickness\<close> exist only in the dicts built by Save, so they are optional fields.

  The two foundation sliders keep their values between runs of the script; the fields
  \<open>foundation_diameter\<close> and \<open>wall_thickness\<close> are these values.
\<close>

record layout_dict =
  l_name :: string
  l_tendons :: nat
  l_grout_connections :: nat
  l_access_shafts :: nat
  l_timestamp :: "string option"
  l_foundation_diameter :: "real option"
  l_wall_thickness :: "real option"

record session =
  tendon_lists :: "nat \<Rightarrow> tendon list"
  grout_lists :: "nat \<Rightarrow> grout list"
  shaft_lists :: "nat \<Rightarrow> shaft list"
  dicts :: "nat \<Rightarrow> layout_dict"
  next_ref :: nat
  current_layout :: nat
  layouts :: "nat list"
  foundation_diameter :: real
  wall_thickness :: real

text \<open>Lines 21 to 29 on the first run, with the sliders at their defaults 10.0 and 0.8.\<close>

definition init_session :: session where
  "init_session =
     \<lparr>tendon_lists = (\<lambda>r. []), grout_lists = (\<lambda>r. []), shaft_lists = (\<lambda>r. []),
      dicts = (\<lambda>r. \<lparr>l_name = [], l_tendons = 0, l_grout_connections = 0,
                     l_access_shafts = 0, l_timestamp = None, l_foundation_diameter = None,
                     l_wall_thickness = None\<rparr>)
                (3 := \<lparr>l_name = ''Layout 1'', l_tendons = 0, l_grout_connections = 1,
                       l_access_shafts = 2, l_timestamp = None, l_foundation_diameter = None,
                       l_wall_thickness = None\<rparr>),
      next_ref = 4, current_layout = 3, layouts = [],
      foundation_diameter = 10, wall_thickness = 8 / 10\<rparr>"

text \<open>What \<^verbatim>\<open>st.session_state.current_layout['tendons']\<close> and its siblings read.\<close>

definition current_tendons :: "session \<Rightarrow> tendon list" where
  "current_tendons s = tendon_lists s (l_tendons (dicts s (current_layout s)))"

definition current_grout_connections :: "session \<Rightarrow> grout list" where
  "current_grout_connections s = grout_lists s (l_grout_connections (dicts s (current_layout s)))"

definition current_access_shafts :: "session \<Rightarrow> shaft list" where
  "current_access_shafts s = shaft_lists s (l_access_shafts (dicts s (current_layout s)))"

text \<open>\<^verbatim>\<open>st.session_state.current_layout['tendons'].append(t)\<close> and its siblings.\<close>

definition append_tendon :: "tendon \<Rightarrow> session \<Rightarrow> session" where
  "append_tendon t s =
     (let r = l_tendons (dicts s (current_layout s))
      in s\<lparr>tendon_lists := (tendon_lists s)(r := tendon_lists s r @ [t])\<rparr>)"

definition append_grout :: "grout \<Rightarrow> session \<Rightarrow> session" where
  "append_grout g s =
     (let r = l_grout_connections (dicts s (current_layout s))
      in s\<lparr>grout_lists := (grout_lists s)(r := grout_lists s r @ [g])\<rparr>)"

definition append_shaft :: "shaft \<Rightarrow> session \<Rightarrow> session" where
  "append_shaft a s =
     (let r = l_access_shafts (dicts s (current_layout s))
      in s\<lparr>shaft_lists := (shaft_lists s)(r := shaft_lists s r @ [a])\<rparr>)"

text \<open>
  Generate Circular Pattern (lines 58 to 70): the key \<^verbatim>\<open>tendons\<close> of the current layout
  is bound to a new empty list, then the loop appends one tendon per angle.
\<close>

definition generate_circular_pattern :: "nat \<Rightarrow> real \<Rightarrow> int \<Rightarrow> session \<Rightarrow> session" where
  "generate_circular_pattern num_tendons radius tendon_diameter s =
     (let r = next_ref s;
          c = current_layout s;
          s1 = s\<lparr>tendon_lists := (tendon_lists s)(r := []),
                 dicts := (dicts s)(c := (dicts s c)\<lparr>l_tendons := r\<rparr>),
                 next_ref := r + 1\<rparr>
      in foldl (\<lambda>s' (i, angle). append_tendon (pattern_tendon radius tendon_diameter i angle) s')
           s1 (List.enumerate 0 (linspace 0 (2 * pi) num_tendons)))"

text \<open>Add Tendon (lines 78 to 85), Add Grout Connection (93 to 99), Add Access Shaft (107 to 113).\<close>

definition add_tendon :: "real \<Rightarrow> real \<Rightarrow> int \<Rightarrow> session \<Rightarrow> session" where
  "add_tendon manual_x manual_y tendon_diameter s =
     append_tendon \<lparr>t_id = length (current_tendons s), t_x = manual_x, t_y = manual_y,
                    t_diameter = tendon_diameter, t_type = ''vertical''\<rparr> s"

definition add_grout_connection :: "real \<Rightarrow> real \<Rightarrow> int \<Rightarrow> session \<Rightarrow> session" where
  "add_grout_connection grout_x grout_y grout_diameter s =
     append_grout \<lparr>g_id = length (current_grout_connections s), g_x = grout_x, g_y = grout_y,
                   g_diameter = grout_diameter\<rparr> s"

definition add_access_shaft :: "real \<Rightarrow> real \<Rightarrow> real \<Rightarrow> session \<Rightarrow> session" where
  "add_access_shaft shaft_x shaft_y shaft_diameter s =
     append_shaft \<lparr>a_id = length (current_access_shafts s), a_x = shaft_x, a_y = shaft_y,
                   a_diameter = shaft_diameter\<rparr> s"

text \<open>Clear All Components (lines 118 to 121): three new empty lists.\<close>

definition clear_all_components :: "session \<Rightarrow> session" where
  "clear_all_components s =
     (let r = next_ref s; c = current_layout s
      in s\<lparr>tendon_lists := (tendon_lists s)(r := []),
            grout_lists := (grout_lists s)(r + 1 := []),
            shaft_lists := (shaft_lists s)(r + 2 := []),
            dicts := (dicts s)(c := (dicts s c)\<lparr>l_tendons := r, l_grout_connections := r + 1,
                                               l_access_shafts := r + 2\<rparr>),
            next_ref := r + 3\<rparr>)"

text \<open>Line 265: \<^verbatim>\<open>st.session_state.current_layout['name'] = layout_name\<close>.\<close>

definition set_name :: "string \<Rightarrow> session \<Rightarrow> session" where
  "set_name layout_name s =
     s\<lparr>dicts := (dicts s)(current_layout s := (dicts s (current_layout s))\<lparr>l_name := layout_name\<rparr>)\<rparr>"

text \<open>
  Save Layout (lines 268 to 278): \<^verbatim>\<open>layout_copy\<close> is a new dict whose three lists are
  \<^verbatim>\<open>.copy()\<close> of the current ones; it is appended to \<^verbatim>\<open>layouts\<close>. \<open>now\<close> is the text of
  \<^verbatim>\<open>datetime.now().strftime("%Y-%m-%d %H:%M")\<close>.
\<close>

definition save_layout :: "string \<Rightarrow> string \<Rightarrow> session \<Rightarrow> session" where
  "save_layout layout_name now s =
     (let cur = dicts s (current_layout s);
          r = next_ref s;
          layout_copy = \<lparr>l_name = layout_name, l_tendons = r, l_grout_connections = r + 1,
                         l_access_shafts = r + 2, l_timestamp = Some now,
                         l_foundation_diameter = Some (foundation_diameter s),
                         l_wall_thickness = Some (wall_thickness s)\<rparr>
      in s\<lparr>tendon_lists := (tendon_lists s)(r := tendon_lists s (l_tendons cur)),
            grout_lists := (grout_lists s)(r + 1 := grout_lists s (l_grout_connections cur)),
            shaft_lists := (shaft_lists s)(r + 2 := shaft_lists s (l_access_shafts cur)),
            dicts := (dicts s)(r + 3 := layout_copy),
            next_ref := r + 4,
            layouts := layouts s @ [r + 3]\<rparr>)"

text \<open>
  Load Layout (lines 305 to 311): \<^verbatim>\<open>current_layout\<close> is bound to a new dict with the saved
  name and the suffix, and \<^verbatim>\<open>.copy()\<close> of the three saved lists. The new dict has no
  foundation keys and the handler does not touch the sliders.
\<close>

definition load_layout :: "nat \<Rightarrow> session \<Rightarrow> session" where
  "load_layout layout s =
     (let saved = dicts s layout;
          r = next_ref s
      in s\<lparr>tendon_lists := (tendon_lists s)(r := tendon_lists s (l_tendons saved)),
            grout_lists := (grout_lists s)(r + 1 := grout_lists s (l_grout_connections saved)),
            shaft_lists := (shaft_lists s)(r + 2 := shaft_lists s (l_access_shafts saved)),
            dicts := (dicts s)(r + 3 :=
              \<lparr>l_name = l_name saved @ '' (copy)'', l_tendons = r, l_grout_connections = r + 1,
               l_access_shafts = r + 2, l_timestamp = None, l_foundation_diameter = None,
               l_wall_thickness = None\<rparr>),
            next_ref := r + 4,
            current_layout := r + 3\<rparr>)"

section \<open>One run of the script\<close>

text \<open>
  Streamlit runs the script from top to bottom after every interaction, and at most one
  button returns \<^verbatim>\<open>True\<close> in a run. An event is the button pressed in the run, with the
  values of the widgets its handler reads; \<open>SetFoundation\<close> is a run in which the user
  moved the two foundation sliders and \<open>NoButton\<close> a run with no button pressed (also
  the run \<^verbatim>\<open>st.rerun()\<close> starts). \<open>layout_name\<close> is the content of the text input in
  the run.
\<close>

datatype event =
  NoButton
  | SetFoundation real real
  | GenerateCircularPattern nat real int
  | AddTendon real real int
  | AddGroutConnection real real int
  | AddAccessShaft real real real
  | ClearAllComponents
  | SaveLayout string
  | LoadLayout nat

text \<open>Lines 42 to 114: the sliders and the handler of the sidebar button.\<close>

fun sidebar :: "event \<Rightarrow> session \<Rightarrow> session" where
  "sidebar (SetFoundation d w) s = s\<lparr>foundation_diameter := d, wall_thickness := w\<rparr>"
| "sidebar (GenerateCircularPattern n r d) s = generate_circular_pattern n r d s"
| "sidebar (AddTendon x y d) s = add_tendon x y d s"
| "sidebar (AddGroutConnection x y d) s = add_grout_connection x y d s"
| "sidebar (AddAccessShaft x y d) s = add_access_shaft x y d s"
| "sidebar ev s = s"

text \<open>
  Lines 298 to 312: one Load button per saved layout, in the order of \<^verbatim>\<open>layouts\<close>; the
  button of index \<open>i\<close> is the one pressed in the event \<open>LoadLayout i\<close>. After loading,
  \<^verbatim>\<open>st.rerun()\<close> ends the run.
\<close>

fun load_buttons :: "event \<Rightarrow> (nat \<times> nat) list \<Rightarrow> session \<Rightarrow> session" where
  "load_buttons ev [] s = s"
| "load_buttons ev ((i, layout) # rest) s =
     (if ev = LoadLayout i then load_layout layout s else load_buttons ev rest s)"

text \<open>
  The whole run. Clear All ends the run with \<^verbatim>\<open>st.rerun()\<close> before the name is written;
  otherwise the name is written, then Save, then the Load buttons.
\<close>

definition run :: "string \<Rightarrow> event \<Rightarrow> session \<Rightarrow> session" where
  "run layout_name ev s =
     (let s1 = sidebar ev s
      in if ev = ClearAllComponents then clear_all_components s1
         else
           (let s2 = set_name layout_name s1;
                s3 = (case ev of SaveLayout now \<Rightarrow> save_layout layout_name now s2 | _ \<Rightarrow> s2)
            in load_buttons ev (List.enumerate 0 (layouts s3)) s3))"

definition runs :: "(string \<times> event) list \<Rightarrow> session \<Rightarrow> session" where
  "runs interactions s = foldl (\<lambda>s' (layout_name, ev). run layout_name ev s') s interactions"

text \<open>What a saved layout holds, read through the store.\<close>

definition snapshot ::
  "session \<Rightarrow> nat \<Rightarrow> string \<times> string option \<times> tendon list \<times> grout list \<times> shaft list
     \<times> real option \<times> real option" where
  "snapshot s layout =
     (let d = dicts s layout
      in (l_name d, l_timestamp d, tendon_lists s (l_tendons d),
          grout_lists s (l_grout_connections d), shaft_lists s (l_access_shafts d),
          l_foundation_diameter d, l_wall_thickness d))"

section \<open>Well-formed sessions\<close>

text \<open>
  The invariants of the store. A layout dict is well formed when it and its three lists
  are allocated and the ids of each list are \<open>0, 1, ...\<close> in list order. A saved layout
  is separate from the current one when it is another dict and shares none of its
  three lists. A session is well formed when the current layout and every saved layout
  are, and every saved layout is separate from the current one.
\<close>

definition layout_ok :: "session \<Rightarrow> nat \<Rightarrow> bool" where
  "layout_ok s d \<longleftrightarrow>
     d < next_ref s
     \<and> l_tendons (dicts s d) < next_ref s
     \<and> l_grout_connections (dicts s d) < next_ref s
     \<and> l_access_shafts (dicts s d) < next_ref s
     \<and> map t_id (tendon_lists s (l_tendons (dicts s d)))
         = [0..<length (tendon_lists s (l_tendons (dicts s d)))]
     \<and> map g_id (grout_lists s (l_grout_connections (dicts s d)))
         = [0..<length (grout_lists s (l_grout_connections (dicts s d)))]
     \<and> map a_id (shaft_lists s (l_access_shafts (dicts s d)))
         = [0..<length (shaft_lists s (l_access_shafts (dicts s d)))]"

definition separate :: "session \<Rightarrow> nat \<Rightarrow> bool" where
  "separate s d \<longleftrightarrow>
     d \<noteq> current_layout s
     \<and> l_tendons (dicts s d) \<noteq> l_tendons (dicts s (current_layout s))
     \<and> l_grout_connections (dicts s d) \<noteq> l_grout_connections (dicts s (current_layout s))
     \<and> l_access_shafts (dicts s d) \<noteq> l_access_shafts (dicts s (current_layout s))"

definition session_ok :: "session \<Rightarrow> bool" where
  "session_ok s \<longleftrightarrow>
     layout_ok s (current_layout s)
     \<and> (\<forall>d \<in> set (layouts s). layout_ok s d \<and> separate s d)"

text \<open>
  What one handler may do to the store: it allocates, it writes the current layout's
  dict and lists or new objects only, and the current layout and its lists afterwards
  are the old ones or new objects.
\<close>

definition frame :: "session \<Rightarrow> session \<Rightarrow> bool" where
  "frame s s' \<longleftrightarrow>
     next_ref s \<le> next_ref s'
     \<and> (\<forall>d. d < next_ref s \<and> d \<noteq> current_layout s \<longrightarrow> dicts s' d = dicts s d)
     \<and> (\<forall>r. r < next_ref s \<and> r \<noteq> l_tendons (dicts s (current_layout s))
            \<longrightarrow> tendon_lists s' r = tendon_lists s r)
     \<and> (\<forall>r. r < next_ref s \<and> r \<noteq> l_grout_connections (dicts s (current_layout s))
            \<longrightarrow> grout_lists s' r = grout_lists s r)
     \<and> (\<forall>r. r < next_ref s \<and> r \<noteq> l_access_shafts (dicts s (current_layout s))
            \<longrightarrow> shaft_lists s' r = shaft_lists s r)
     \<and> (current_layout s' = current_layout s \<or> next_ref s \<le> current_layout s')
     \<and> (l_tendons (dicts s' (current_layout s')) = l_tendons (dicts s (current_layout s))
          \<or> next_ref s \<le> l_tendons (dicts s' (current_layout s')))
     \<and> (l_grout_connections (dicts s' (current_layout s'))
            = l_grout_connections (dicts s (current_layout s))
          \<or> next_ref s \<le> l_grout_connections (dicts s' (current_layout s')))
     \<and> (l_access_shafts (dicts s' (current_layout s')) = l_access_shafts (dicts s (current_layout s))
          \<or> next_ref s \<le> l_access_shafts (dicts s' (current_layout s')))"

text \<open>
  \<open>extends s s'\<close>: \<open>s'\<close> is well formed, its saved layouts are those of \<open>s\<close> with
  new ones appended, and each saved layout of \<open>s\<close> reads the same in \<open>s'\<close>.
\<close>

definition extends :: "session \<Rightarrow> session \<Rightarrow> bool" where
  "extends s s' \<longleftrightarrow>
     session_ok s'
     \<and> (\<exists>new. layouts s' = layouts s @ new)
     \<and> (\<forall>d \<in> set (layouts s). snapshot s' d = snapshot s d)"

section \<open>Properties of the validation\<close>

lemma check_containment_filter:
  "check_containment fd wt ts =
     map (\<lambda>t. TendonTooCloseToWall (t_id t))
       (filter (\<lambda>t. distance t + real_of_int (t_diameter t) / 2000 > fd / 2 - wt) ts)"
  unfolding check_containment_def by (induction ts) simp_all

lemma check_clearance_no_wall: "TendonTooCloseToWall k \<notin> set (check_clearance ts)"
  unfolding check_clearance_def by auto

text \<open>
  C1. Check 1 flags a tendon exactly when its distance from the origin plus its radius
  (diameter in millimetres over 2000) exceeds the inner radius
  \<open>foundation_diameter / 2 - wall_thickness\<close>. The comparison is strict: a tendon whose
  distance is exactly the inner radius minus its own radius is not flagged, one farther
  out is. Each finding carries the tendon's \<^verbatim>\<open>id\<close>, and check 2 adds no finding of this
  kind to \<^verbatim>\<open>violations\<close>.
\<close>

theorem containment_rule:
  "check_containment fd wt ts =
     map (\<lambda>t. TendonTooCloseToWall (t_id t))
       (filter (\<lambda>t. distance t + real_of_int (t_diameter t) / 2000 > fd / 2 - wt) ts)
   \<and> (TendonTooCloseToWall k \<in> set (violations fd wt ts) \<longleftrightarrow>
        (\<exists>t \<in> set ts. t_id t = k \<and>
           distance t + real_of_int (t_diameter t) / 2000 > fd / 2 - wt))
   \<and> (distance t = fd / 2 - wt - real_of_int (t_diameter t) / 2000 \<longrightarrow>
        check_containment fd wt [t] = [])
   \<and> (distance t > fd / 2 - wt - real_of_int (t_diameter t) / 2000 \<longrightarrow>
        check_containment fd wt [t] = [TendonTooCloseToWall (t_id t)])"
proof -
  have list: "check_containment fd wt ts =
     map (\<lambda>t. TendonTooCloseToWall (t_id t))
       (filter (\<lambda>t. distance t + real_of_int (t_diameter t) / 2000 > fd / 2 - wt) ts)"
    by (rule check_containment_filter)
  have member: "TendonTooCloseToWall k \<in> set (violations fd wt ts) \<longleftrightarrow>
        (\<exists>t \<in> set ts. t_id t = k \<and>
           distance t + real_of_int (t_diameter t) / 2000 > fd / 2 - wt)"
    unfolding violations_def using check_clearance_no_wall [of k ts]
    by (auto simp: check_containment_filter)
  have boundary: "distance t = fd / 2 - wt - real_of_int (t_diameter t) / 2000 \<longrightarrow>
        check_containment fd wt [t] = []"
    by (simp add: check_containment_filter)
  have beyond: "distance t > fd / 2 - wt - real_of_int (t_diameter t) / 2000 \<longrightarrow>
        check_containment fd wt [t] = [TendonTooCloseToWall (t_id t)]"
    by (auto simp: check_containment_filter)
  from list member boundary beyond show ?thesis by blast
qed

theorem containment_rule_witness:
  "distance \<lparr>t_id = 0, t_x = 4125 / 1000, t_y = 0, t_diameter = 150, t_type = ''vertical''\<rparr>
     = 10 / 2 - 8 / 10 - real_of_int 150 / 2000
   \<and> check_containment 10 (8 / 10)
       [\<lparr>t_id = 0, t_x = 4125 / 1000, t_y = 0, t_diameter = 150, t_type = ''vertical''\<rparr>] = []
   \<and> check_containment 10 (8 / 10)
       [\<lparr>t_id = 0, t_x = 4125 / 1000, t_y = 0, t_diameter = 150, t_type = ''vertical''\<rparr>,
        \<lparr>t_id = 1, t_x = 4126 / 1000, t_y = 0, t_diameter = 150, t_type = ''vertical''\<rparr>]
       = [TendonTooCloseToWall 1]"
  using containment_rule [of 10 "8 / 10"
       "[\<lparr>t_id = 0, t_x = 4125 / 1000, t_y = 0, t_diameter = 150, t_type = ''vertical''\<rparr>,
        \<lparr>t_id = 1, t_x = 4126 / 1000, t_y = 0, t_diameter = 150, t_type = ''vertical''\<rparr>]"
       1 "\<lparr>t_id = 0, t_x = 4125 / 1000, t_y = 0, t_diameter = 150, t_type = ''vertical''\<rparr>"]
  by (simp add: distance_def real_sqrt_divide power_divide)

lemma concat_concat_map: "concat (concat (map f xs)) = concat (map (\<lambda>x. concat (f x)) xs)"
  by (induction xs) simp_all

lemma concat_map_if:
  "concat (map (\<lambda>x. if P x then [f x] else []) xs) = map f (filter P xs)"
  by (induction xs) simp_all

lemma enumerate_nth: "List.enumerate 0 xs = map (\<lambda>k. (k, xs ! k)) [0..<length xs]"
proof -
  have "List.enumerate 0 (map ((!) xs) [0..<length xs]) = map (\<lambda>k. (k, xs ! k)) [0..<length xs]"
    by (rule enumerate_map_upt)
  then show ?thesis by (simp add: map_nth)
qed

lemma drop_nth: "drop k xs = map ((!) xs) [k..<length xs]"
proof -
  have "drop k (map ((!) xs) [0..<length xs]) = map ((!) xs) (drop k [0..<length xs])"
    by (rule drop_map)
  then show ?thesis by (simp add: map_nth)
qed

lemma enumerate_drop_nth:
  "List.enumerate k (drop k xs) = map (\<lambda>j. (j, xs ! j)) [k..<length xs]"
  by (subst drop_nth) (rule enumerate_map_upt)

lemma tendon_pairs_nth:
  "tendon_pairs ts =
     [((i, ts ! i), (j, ts ! j)). i \<leftarrow> [0..<length ts], j \<leftarrow> [Suc i..<length ts]]"
  unfolding tendon_pairs_def
  by (simp add: enumerate_nth enumerate_drop_nth map_concat comp_def)

lemma index_pairs_set:
  "set [(i, j). i \<leftarrow> [k..<n], j \<leftarrow> [Suc i..<n]] = {(i, j). k \<le> i \<and> i < j \<and> j < n}"
  by force

lemma index_pairs_distinct: "distinct [(i, j). i \<leftarrow> [k..<n], j \<leftarrow> [Suc i..<n::nat]]"
proof (induction "n - k" arbitrary: k)
  case 0
  then show ?case by simp
next
  case (Suc d)
  then have kn: "k < n" and d: "d = n - Suc k" by simp_all
  have split: "[k..<n] = k # [Suc k..<n]" using kn by (simp add: upt_conv_Cons)
  have head: "distinct (map (Pair k) [Suc k..<n])"
    by (simp add: distinct_map inj_on_def)
  have tail: "distinct [(i, j). i \<leftarrow> [Suc k..<n], j \<leftarrow> [Suc i..<n]]"
    using Suc.hyps(1) [OF d] .
  have disj: "set (map (Pair k) [Suc k..<n])
      \<inter> set [(i, j). i \<leftarrow> [Suc k..<n], j \<leftarrow> [Suc i..<n]] = {}"
    by auto
  show ?case
    unfolding split using head tail disj by simp
qed

lemma tendon_pairs_indices:
  "map (\<lambda>((i, t1), (j, t2)). (i, j)) (tendon_pairs ts)
     = [(i, j). i \<leftarrow> [0..<length ts], j \<leftarrow> [Suc i..<length ts]]"
  by (simp add: tendon_pairs_nth map_concat comp_def)

lemma check_clearance_nth:
  "check_clearance ts =
     [TendonsTooClose i j (tendon_dist (ts ! i) (ts ! j)) (tendon_min_dist (ts ! i) (ts ! j)).
        i \<leftarrow> [0..<length ts], j \<leftarrow> [Suc i..<length ts],
        tendon_dist (ts ! i) (ts ! j) < tendon_min_dist (ts ! i) (ts ! j)]"
  unfolding check_clearance_def
  by (simp add: tendon_pairs_nth map_concat comp_def concat_concat_map)

lemma check_clearance_member:
  "TendonsTooClose i j d m \<in> set (check_clearance ts) \<longleftrightarrow>
     i < j \<and> j < length ts \<and> d = tendon_dist (ts ! i) (ts ! j)
       \<and> m = tendon_min_dist (ts ! i) (ts ! j) \<and> d < m"
  unfolding check_clearance_nth by auto

lemma check_clearance_filter:
  "check_clearance ts =
     map (\<lambda>(i, j). TendonsTooClose i j (tendon_dist (ts ! i) (ts ! j))
                     (tendon_min_dist (ts ! i) (ts ! j)))
       (filter (\<lambda>(i, j). tendon_dist (ts ! i) (ts ! j) < tendon_min_dist (ts ! i) (ts ! j))
          [(i, j). i \<leftarrow> [0..<length ts], j \<leftarrow> [Suc i..<length ts]])"
  unfolding check_clearance_nth
  by (simp add: filter_concat map_concat comp_def filter_map concat_map_if)

lemma check_clearance_distinct: "distinct (check_clearance ts)"
  unfolding check_clearance_filter
  by (rule distinct_map_filter) (auto simp: distinct_map index_pairs_distinct inj_on_def)

lemma tendon_dist_sym: "tendon_dist t1 t2 = tendon_dist t2 t1"
  unfolding tendon_dist_def by (simp add: power2_commute)

lemma tendon_min_dist_sym: "tendon_min_dist t1 t2 = tendon_min_dist t2 t1"
  unfolding tendon_min_dist_def by (simp add: add.commute)

lemma tendon_min_dist_metres:
  "tendon_min_dist t1 t2 =
     (real_of_int (t_diameter t1) / 1000 + real_of_int (t_diameter t2) / 1000) / 2 + 3 / 10"
  unfolding tendon_min_dist_def min_clearance_def by (simp add: add_divide_distrib)

lemma check_clearance_ids:
  assumes "map t_id ts = [0..<length ts]"
  shows "check_clearance ts =
     [TendonsTooClose (t_id t1) (t_id t2) (tendon_dist t1 t2) (tendon_min_dist t1 t2).
        ((i, t1), (j, t2)) \<leftarrow> tendon_pairs ts, tendon_dist t1 t2 < tendon_min_dist t1 t2]"
proof -
  have id: "t_id (ts ! k) = k" if "k < length ts" for k
  proof -
    have "map t_id ts ! k = [0..<length ts] ! k" using assms by simp
    then show ?thesis using that by simp
  qed
  have inner: "map (\<lambda>j. if tendon_dist (ts ! i) (ts ! j) < tendon_min_dist (ts ! i) (ts ! j)
                 then [TendonsTooClose i j (tendon_dist (ts ! i) (ts ! j))
                         (tendon_min_dist (ts ! i) (ts ! j))] else []) [Suc i..<length ts]
      = map (\<lambda>j. if tendon_dist (ts ! i) (ts ! j) < tendon_min_dist (ts ! i) (ts ! j)
                 then [TendonsTooClose (t_id (ts ! i)) (t_id (ts ! j)) (tendon_dist (ts ! i) (ts ! j))
                         (tendon_min_dist (ts ! i) (ts ! j))] else []) [Suc i..<length ts]"
    if "i < length ts" for i
    using that by (intro map_cong refl) (simp add: id)
  have outer: "map (\<lambda>i. concat (map (\<lambda>j. if tendon_dist (ts ! i) (ts ! j) < tendon_min_dist (ts ! i) (ts ! j)
                 then [TendonsTooClose i j (tendon_dist (ts ! i) (ts ! j))
                         (tendon_min_dist (ts ! i) (ts ! j))] else []) [Suc i..<length ts]))
               [0..<length ts]
      = map (\<lambda>i. concat (map (\<lambda>j. if tendon_dist (ts ! i) (ts ! j) < tendon_min_dist (ts ! i) (ts ! j)
                 then [TendonsTooClose (t_id (ts ! i)) (t_id (ts ! j)) (tendon_dist (ts ! i) (ts ! j))
                         (tendon_min_dist (ts ! i) (ts ! j))] else []) [Suc i..<length ts]))
               [0..<length ts]"
    by (intro map_cong refl) (simp add: inner)
  show ?thesis
    unfolding check_clearance_nth
    by (simp add: tendon_pairs_nth map_concat comp_def concat_concat_map outer)
qed

lemma check_clearance_two:
  "check_clearance [t1, t2] =
     (if tendon_dist t1 t2 < tendon_min_dist t1 t2
      then [TendonsTooClose 0 1 (tendon_dist t1 t2) (tendon_min_dist t1 t2)] else [])"
  unfolding check_clearance_nth by (simp add: upt_rec)

lemma containment_300:
  "t_diameter t = 300 \<Longrightarrow>
     check_containment fd wt [t] = [] \<longleftrightarrow> distance t + 15 / 100 \<le> fd / 2 - wt"
  by (auto simp: check_containment_filter)

text \<open>
  C2. Check 2 visits the pairs \<open>(i, j)\<close> with \<open>i < j < length ts\<close>, each once, so an
  unordered pair of different positions is examined once. The test is symmetric in the
  two tendons: it fires when the centre distance is strictly below half the sum of the
  two diameters, converted from millimetres to metres, plus 0.3. Each finding appears
  once and carries the two positions, the distance and the required minimum; where the
  ids of the list are \<open>0, 1, ..., length ts - 1\<close> in order, the positions are the ids.
  Two tendons of diameter 300 whose centres are 0.3 apart give the finding with minimum
  0.6, and check 1 treats such a tendon with the radius 0.15.
\<close>

theorem clearance_rule:
  "tendon_pairs ts =
     [((i, ts ! i), (j, ts ! j)). i \<leftarrow> [0..<length ts], j \<leftarrow> [Suc i..<length ts]]
   \<and> distinct (map (\<lambda>((i, t1), (j, t2)). (i, j)) (tendon_pairs ts))
   \<and> set (map (\<lambda>((i, t1), (j, t2)). (i, j)) (tendon_pairs ts))
       = {(i, j). i < j \<and> j < length ts}
   \<and> tendon_dist t1 t2 = tendon_dist t2 t1
   \<and> tendon_min_dist t1 t2 = tendon_min_dist t2 t1
   \<and> tendon_min_dist t1 t2 =
       (real_of_int (t_diameter t1) / 1000 + real_of_int (t_diameter t2) / 1000) / 2 + 3 / 10
   \<and> distinct (check_clearance ts)
   \<and> (TendonsTooClose i j d m \<in> set (check_clearance ts) \<longleftrightarrow>
        i < j \<and> j < length ts \<and> d = tendon_dist (ts ! i) (ts ! j)
          \<and> m = tendon_min_dist (ts ! i) (ts ! j) \<and> d < m)
   \<and> (map t_id ts = [0..<length ts] \<longrightarrow>
        check_clearance ts =
          [TendonsTooClose (t_id u1) (t_id u2) (tendon_dist u1 u2) (tendon_min_dist u1 u2).
             ((k, u1), (l, u2)) \<leftarrow> tendon_pairs ts, tendon_dist u1 u2 < tendon_min_dist u1 u2])
   \<and> (t_diameter t1 = 300 \<and> t_diameter t2 = 300 \<and> tendon_dist t1 t2 = 3 / 10 \<longrightarrow>
        check_clearance [t1, t2] = [TendonsTooClose 0 1 (3 / 10) (6 / 10)])
   \<and> (t_diameter t1 = 300 \<longrightarrow>
        (check_containment fd wt [t1] = [] \<longleftrightarrow> distance t1 + 15 / 100 \<le> fd / 2 - wt))"
proof -
  have once: "distinct (map (\<lambda>((i, t1), (j, t2)). (i, j)) (tendon_pairs ts))"
    unfolding tendon_pairs_indices by (rule index_pairs_distinct)
  have all: "set (map (\<lambda>((i, t1), (j, t2)). (i, j)) (tendon_pairs ts))
       = {(i, j). i < j \<and> j < length ts}"
    unfolding tendon_pairs_indices index_pairs_set by simp
  have ids: "map t_id ts = [0..<length ts] \<longrightarrow>
        check_clearance ts =
          [TendonsTooClose (t_id u1) (t_id u2) (tendon_dist u1 u2) (tendon_min_dist u1 u2).
             ((k, u1), (l, u2)) \<leftarrow> tendon_pairs ts, tendon_dist u1 u2 < tendon_min_dist u1 u2]"
    using check_clearance_ids by blast
  have example: "t_diameter t1 = 300 \<and> t_diameter t2 = 300 \<and> tendon_dist t1 t2 = 3 / 10 \<longrightarrow>
        check_clearance [t1, t2] = [TendonsTooClose 0 1 (3 / 10) (6 / 10)]"
    by (simp add: check_clearance_two tendon_min_dist_def min_clearance_def)
  have units: "t_diameter t1 = 300 \<longrightarrow>
        (check_containment fd wt [t1] = [] \<longleftrightarrow> distance t1 + 15 / 100 \<le> fd / 2 - wt)"
    using containment_300 by blast
  show ?thesis
    using tendon_pairs_nth [of ts] once all tendon_dist_sym [of t1 t2]
      tendon_min_dist_sym [of t1 t2] tendon_min_dist_metres [of t1 t2]
      check_clearance_distinct [of ts] check_clearance_member [of i j d m ts] ids example units
    by blast
qed

theorem clearance_rule_witness:
  "map t_id [\<lparr>t_id = 0, t_x = 0, t_y = 0, t_diameter = 300, t_type = ''vertical''\<rparr>,
             \<lparr>t_id = 1, t_x = 3 / 10, t_y = 0, t_diameter = 300, t_type = ''vertical''\<rparr>]
     = [0..<2]
   \<and> tendon_dist \<lparr>t_id = 0, t_x = 0, t_y = 0, t_diameter = 300, t_type = ''vertical''\<rparr>
        \<lparr>t_id = 1, t_x = 3 / 10, t_y = 0, t_diameter = 300, t_type = ''vertical''\<rparr> = 3 / 10
   \<and> violations 10 (8 / 10)
        [\<lparr>t_id = 0, t_x = 0, t_y = 0, t_diameter = 300, t_type = ''vertical''\<rparr>,
         \<lparr>t_id = 1, t_x = 3 / 10, t_y = 0, t_diameter = 300, t_type = ''vertical''\<rparr>]
       = [TendonsTooClose 0 1 (3 / 10) (6 / 10)]"
  using clearance_rule [of
      "[\<lparr>t_id = 0, t_x = 0, t_y = 0, t_diameter = 300, t_type = ''vertical''\<rparr>,
        \<lparr>t_id = 1, t_x = 3 / 10, t_y = 0, t_diameter = 300, t_type = ''vertical''\<rparr>]"
      "\<lparr>t_id = 0, t_x = 0, t_y = 0, t_diameter = 300, t_type = ''vertical''\<rparr>"
      "\<lparr>t_id = 1, t_x = 3 / 10, t_y = 0, t_diameter = 300, t_type = ''vertical''\<rparr>"
      0 1 "3 / 10" "6 / 10" 10 "8 / 10"]
  by (simp add: violations_def check_containment_filter distance_def tendon_dist_def
      real_sqrt_divide power_divide upt_rec)

lemma check_clearance_no_grout: "GroutNearTendon a b \<notin> set (check_clearance ts)"
  unfolding check_clearance_def by auto

lemma check_containment_no_grout: "GroutNearTendon a b \<notin> set (check_containment fd wt ts)"
  unfolding check_containment_def by auto

lemma check_clearance_nonempty:
  "check_clearance ts \<noteq> [] \<longleftrightarrow>
     (\<exists>i j. i < j \<and> j < length ts \<and> tendon_dist (ts ! i) (ts ! j) < tendon_min_dist (ts ! i) (ts ! j))"
proof
  assume "check_clearance ts \<noteq> []"
  then obtain f where f: "f \<in> set (check_clearance ts)" by (cases "check_clearance ts") auto
  then obtain i j d m where "f = TendonsTooClose i j d m"
    unfolding check_clearance_nth by auto
  with f have "i < j \<and> j < length ts \<and> d = tendon_dist (ts ! i) (ts ! j)
       \<and> m = tendon_min_dist (ts ! i) (ts ! j) \<and> d < m"
    by (simp add: check_clearance_member)
  then show "\<exists>i j. i < j \<and> j < length ts
      \<and> tendon_dist (ts ! i) (ts ! j) < tendon_min_dist (ts ! i) (ts ! j)"
    by blast
next
  assume "\<exists>i j. i < j \<and> j < length ts
      \<and> tendon_dist (ts ! i) (ts ! j) < tendon_min_dist (ts ! i) (ts ! j)"
  then obtain i j where "i < j" "j < length ts"
      "tendon_dist (ts ! i) (ts ! j) < tendon_min_dist (ts ! i) (ts ! j)" by blast
  then have "TendonsTooClose i j (tendon_dist (ts ! i) (ts ! j)) (tendon_min_dist (ts ! i) (ts ! j))
      \<in> set (check_clearance ts)"
    by (simp add: check_clearance_member)
  then show "check_clearance ts \<noteq> []" by auto
qed

lemma check_containment_nonempty:
  "check_containment fd wt ts \<noteq> [] \<longleftrightarrow>
     (\<exists>t \<in> set ts. distance t + real_of_int (t_diameter t) / 1000 / 2 > fd / 2 - wt)"
  by (auto simp: check_containment_filter filter_empty_conv)

lemma check_grout_filter:
  "check_grout gs ts =
     map (\<lambda>(g, t). GroutNearTendon (g_id g) (t_id t))
       (filter (\<lambda>(g, t). grout_dist g t < grout_min_dist g t) (List.product gs ts))"
  unfolding check_grout_def List.product_concat_map
  by (simp add: filter_concat map_concat comp_def filter_map concat_map_if)

lemma check_grout_member:
  "GroutNearTendon a b \<in> set (check_grout gs ts) \<longleftrightarrow>
     (\<exists>g \<in> set gs. \<exists>t \<in> set ts. g_id g = a \<and> t_id t = b \<and> grout_dist g t < grout_min_dist g t)"
  unfolding check_grout_filter by auto

lemma check_grout_nonempty:
  "check_grout gs ts \<noteq> [] \<longleftrightarrow>
     (\<exists>g \<in> set gs. \<exists>t \<in> set ts. grout_dist g t < grout_min_dist g t)"
  unfolding check_grout_filter by (auto simp: filter_empty_conv)

lemma grout_min_dist_metres:
  "grout_min_dist g t =
     real_of_int (g_diameter g) / 2000 + real_of_int (t_diameter t) / 2000 + 2 / 10"
  unfolding grout_min_dist_def by simp

lemma only_warnings_example:
  "violations 10 (8 / 10) [\<lparr>t_id = 0, t_x = 0, t_y = 0, t_diameter = 150, t_type = ''vertical''\<rparr>] = []
   \<and> warnings [\<lparr>g_id = 0, g_x = 2 / 10, g_y = 0, g_diameter = 400\<rparr>]
        [\<lparr>t_id = 0, t_x = 0, t_y = 0, t_diameter = 150, t_type = ''vertical''\<rparr>]
      = [GroutNearTendon 0 0]"
  by (simp add: violations_def warnings_def check_containment_filter check_clearance_nth
      check_grout_def distance_def grout_dist_def grout_min_dist_def real_sqrt_divide power_divide)

lemma only_violations_example:
  "violations 10 (8 / 10) [\<lparr>t_id = 0, t_x = 5, t_y = 0, t_diameter = 150, t_type = ''vertical''\<rparr>]
     = [TendonTooCloseToWall 0]
   \<and> warnings [] [\<lparr>t_id = 0, t_x = 5, t_y = 0, t_diameter = 150, t_type = ''vertical''\<rparr>] = []"
  by (simp add: violations_def warnings_def check_containment_filter check_clearance_nth
      check_grout_def distance_def)

lemma both_example:
  "violations 10 (8 / 10) [\<lparr>t_id = 0, t_x = 5, t_y = 0, t_diameter = 150, t_type = ''vertical''\<rparr>]
     = [TendonTooCloseToWall 0]
   \<and> warnings [\<lparr>g_id = 0, g_x = 5, g_y = 0, g_diameter = 400\<rparr>]
        [\<lparr>t_id = 0, t_x = 5, t_y = 0, t_diameter = 150, t_type = ''vertical''\<rparr>]
      = [GroutNearTendon 0 0]"
  by (simp add: violations_def warnings_def check_containment_filter check_clearance_nth
      check_grout_def distance_def grout_dist_def grout_min_dist_def)

lemma neither_example: "violations 10 (8 / 10) [] = [] \<and> warnings [] [] = []"
  by (simp add: violations_def warnings_def check_containment_filter check_clearance_nth
      check_grout_def)

text \<open>
  C3. \<^verbatim>\<open>violations\<close> is not empty exactly when check 1 fires for a tendon or check 2 for
  a pair; \<^verbatim>\<open>warnings\<close> is not empty exactly when check 3 fires for a grout connection and
  a tendon, that is when their distance is strictly below the two radii (diameters in
  millimetres over 2000) plus 0.2. A finding of check 3 is never in \<^verbatim>\<open>violations\<close>;
  \<^verbatim>\<open>violations\<close> does not depend on the grout connections and \<^verbatim>\<open>warnings\<close> not on the
  foundation; and each of the four combinations of empty and non-empty lists occurs.
\<close>

theorem validation_lists:
  "fst (validate fd wt ts gs) = violations fd wt ts
   \<and> snd (validate fd wt ts gs) = warnings gs ts
   \<and> (fst (validate fd wt ts gs) \<noteq> [] \<longleftrightarrow>
        (\<exists>t \<in> set ts. distance t + real_of_int (t_diameter t) / 1000 / 2 > fd / 2 - wt)
        \<or> (\<exists>i j. i < j \<and> j < length ts
              \<and> tendon_dist (ts ! i) (ts ! j) < tendon_min_dist (ts ! i) (ts ! j)))
   \<and> (snd (validate fd wt ts gs) \<noteq> [] \<longleftrightarrow>
        (\<exists>g \<in> set gs. \<exists>t \<in> set ts. grout_dist g t < grout_min_dist g t))
   \<and> grout_min_dist g t =
        real_of_int (g_diameter g) / 2000 + real_of_int (t_diameter t) / 2000 + 2 / 10
   \<and> (GroutNearTendon a b \<in> set (snd (validate fd wt ts gs)) \<longleftrightarrow>
        (\<exists>g \<in> set gs. \<exists>t \<in> set ts. g_id g = a \<and> t_id t = b
            \<and> grout_dist g t < grout_min_dist g t))
   \<and> GroutNearTendon a b \<notin> set (fst (validate fd wt ts gs))
   \<and> fst (validate fd wt ts gs) = fst (validate fd wt ts gs')
   \<and> snd (validate fd wt ts gs) = snd (validate fd' wt' ts gs)
   \<and> (\<exists>ts gs. fst (validate 10 (8 / 10) ts gs) = [] \<and> snd (validate 10 (8 / 10) ts gs) = [])
   \<and> (\<exists>ts gs. fst (validate 10 (8 / 10) ts gs) = [] \<and> snd (validate 10 (8 / 10) ts gs) \<noteq> [])
   \<and> (\<exists>ts gs. fst (validate 10 (8 / 10) ts gs) \<noteq> [] \<and> snd (validate 10 (8 / 10) ts gs) = [])
   \<and> (\<exists>ts gs. fst (validate 10 (8 / 10) ts gs) \<noteq> [] \<and> snd (validate 10 (8 / 10) ts gs) \<noteq> [])"
proof -
  have v: "violations fd wt ts \<noteq> [] \<longleftrightarrow>
        (\<exists>t \<in> set ts. distance t + real_of_int (t_diameter t) / 1000 / 2 > fd / 2 - wt)
        \<or> (\<exists>i j. i < j \<and> j < length ts
              \<and> tendon_dist (ts ! i) (ts ! j) < tendon_min_dist (ts ! i) (ts ! j))"
    unfolding violations_def
    using check_containment_nonempty [of fd wt ts] check_clearance_nonempty [of ts] by simp
  have w: "warnings gs ts \<noteq> [] \<longleftrightarrow>
        (\<exists>g \<in> set gs. \<exists>t \<in> set ts. grout_dist g t < grout_min_dist g t)"
    unfolding warnings_def by (rule check_grout_nonempty)
  have m: "GroutNearTendon a b \<in> set (warnings gs ts) \<longleftrightarrow>
        (\<exists>g \<in> set gs. \<exists>t \<in> set ts. g_id g = a \<and> t_id t = b
            \<and> grout_dist g t < grout_min_dist g t)"
    unfolding warnings_def by (rule check_grout_member)
  have n: "GroutNearTendon a b \<notin> set (violations fd wt ts)"
    unfolding violations_def
    using check_containment_no_grout [of a b fd wt ts] check_clearance_no_grout [of a b ts]
    by simp
  have e1: "\<exists>ts gs. fst (validate 10 (8 / 10) ts gs) = [] \<and> snd (validate 10 (8 / 10) ts gs) = []"
    unfolding validate_def fst_conv snd_conv using neither_example by blast
  have e2: "\<exists>ts gs. fst (validate 10 (8 / 10) ts gs) = [] \<and> snd (validate 10 (8 / 10) ts gs) \<noteq> []"
    unfolding validate_def fst_conv snd_conv
    using only_warnings_example by (metis list.distinct(1))
  have e3: "\<exists>ts gs. fst (validate 10 (8 / 10) ts gs) \<noteq> [] \<and> snd (validate 10 (8 / 10) ts gs) = []"
    unfolding validate_def fst_conv snd_conv
    using only_violations_example by (metis list.distinct(1))
  have e4: "\<exists>ts gs. fst (validate 10 (8 / 10) ts gs) \<noteq> [] \<and> snd (validate 10 (8 / 10) ts gs) \<noteq> []"
    unfolding validate_def fst_conv snd_conv
    using both_example by (metis list.distinct(1))
  show ?thesis
    using v w m n e1 e2 e3 e4 grout_min_dist_metres [of g t]
    unfolding validate_def fst_conv snd_conv by blast
qed

lemma distance_nonneg: "0 \<le> distance t"
  unfolding distance_def by simp

text \<open>
  C6. With an inner radius \<open>foundation_diameter / 2 - wall_thickness\<close> that is zero or
  negative and tendons of positive diameter, check 1 flags every tendon, in order, and
  each of these findings is in \<^verbatim>\<open>violations\<close>. The validation divides by the literals
  1000 and 2 only and takes the root of a sum of squares, so it has no failing step.
\<close>

theorem degenerate_foundation:
  assumes "fd / 2 - wt \<le> 0" and "\<forall>t \<in> set ts. 0 < t_diameter t"
  shows "check_containment fd wt ts = map (\<lambda>t. TendonTooCloseToWall (t_id t)) ts
    \<and> (\<forall>t \<in> set ts. TendonTooCloseToWall (t_id t) \<in> set (fst (validate fd wt ts gs)))"
proof -
  have flagged: "distance t + real_of_int (t_diameter t) / 2000 > fd / 2 - wt" if "t \<in> set ts" for t
  proof -
    have "0 < real_of_int (t_diameter t) / 2000" using assms(2) that by simp
    with distance_nonneg [of t] assms(1) show ?thesis by linarith
  qed
  then have all: "filter (\<lambda>t. distance t + real_of_int (t_diameter t) / 2000 > fd / 2 - wt) ts = ts"
    by (simp add: filter_id_conv)
  have list: "check_containment fd wt ts = map (\<lambda>t. TendonTooCloseToWall (t_id t)) ts"
    by (simp add: check_containment_filter all)
  then show ?thesis
    by (auto simp: validate_def violations_def)
qed

theorem degenerate_foundation_witness:
  "(5::real) / 2 - 3 \<le> 0
   \<and> fst (validate 5 3
       [\<lparr>t_id = 0, t_x = 0, t_y = 0, t_diameter = 150, t_type = ''vertical''\<rparr>,
        \<lparr>t_id = 1, t_x = 1, t_y = 0, t_diameter = 100, t_type = ''vertical''\<rparr>] [])
     = [TendonTooCloseToWall 0, TendonTooCloseToWall 1]"
proof -
  have h1: "(5::real) / 2 - 3 \<le> 0" by simp
  have h2: "\<forall>t \<in> set [\<lparr>t_id = 0, t_x = 0, t_y = 0, t_diameter = 150, t_type = ''vertical''\<rparr>,
        \<lparr>t_id = 1, t_x = 1, t_y = 0, t_diameter = 100, t_type = ''vertical''\<rparr>]. 0 < t_diameter t"
    by simp
  have far: "check_clearance
       [\<lparr>t_id = 0, t_x = 0, t_y = 0, t_diameter = 150, t_type = ''vertical''\<rparr>,
        \<lparr>t_id = 1, t_x = 1, t_y = 0, t_diameter = 100, t_type = ''vertical''\<rparr>] = []"
    by (simp add: check_clearance_two tendon_dist_def tendon_min_dist_def min_clearance_def)
  show ?thesis
    using degenerate_foundation [OF h1 h2, of "[]"] h1 far
    by (simp add: validate_def violations_def)
qed

section \<open>Properties of the pattern, the estimates and the export\<close>

lemma append_tendon_fields [simp]:
  "dicts (append_tendon t s) = dicts s"
  "current_layout (append_tendon t s) = current_layout s"
  "next_ref (append_tendon t s) = next_ref s"
  "layouts (append_tendon t s) = layouts s"
  "grout_lists (append_tendon t s) = grout_lists s"
  "shaft_lists (append_tendon t s) = shaft_lists s"
  "foundation_diameter (append_tendon t s) = foundation_diameter s"
  "wall_thickness (append_tendon t s) = wall_thickness s"
  by (simp_all add: append_tendon_def Let_def)

lemma append_tendon_lists:
  "tendon_lists (append_tendon t s) =
     (tendon_lists s)(l_tendons (dicts s (current_layout s)) :=
        tendon_lists s (l_tendons (dicts s (current_layout s))) @ [t])"
  by (simp add: append_tendon_def Let_def)

lemma foldl_append_tendon:
  "foldl (\<lambda>s' p. append_tendon (F p) s') s xs =
     s\<lparr>tendon_lists := (tendon_lists s)(l_tendons (dicts s (current_layout s)) :=
          tendon_lists s (l_tendons (dicts s (current_layout s))) @ map F xs)\<rparr>"
proof (induction xs arbitrary: s)
  case Nil
  show ?case by simp
next
  case (Cons x xs)
  have "foldl (\<lambda>s' p. append_tendon (F p) s') s (x # xs)
      = foldl (\<lambda>s' p. append_tendon (F p) s') (append_tendon (F x) s) xs" by simp
  also have "\<dots> = (append_tendon (F x) s)\<lparr>tendon_lists := (tendon_lists (append_tendon (F x) s))(l_tendons (dicts (append_tendon (F x) s) (current_layout (append_tendon (F x) s))) :=
          tendon_lists (append_tendon (F x) s) (l_tendons (dicts (append_tendon (F x) s) (current_layout (append_tendon (F x) s)))) @ map F xs)\<rparr>"
    by (rule Cons.IH)
  also have "\<dots> = s\<lparr>tendon_lists := (tendon_lists s)(l_tendons (dicts s (current_layout s)) :=
          tendon_lists s (l_tendons (dicts s (current_layout s))) @ map F (x # xs))\<rparr>"
    by (simp add: append_tendon_def Let_def)
  finally show ?case .
qed

lemma linspace_angles: "linspace 0 (2 * pi) n = map (\<lambda>k. 2 * pi * real k / real n) [0..<n]"
  unfolding linspace_def by (simp add: mult.commute)

lemma enumerate_linspace:
  "List.enumerate 0 (linspace 0 (2 * pi) n) = map (\<lambda>k. (k, 2 * pi * real k / real n)) [0..<n]"
  unfolding linspace_angles by (rule enumerate_map_upt)

lemma generate_circular_pattern_eq:
  "generate_circular_pattern n radius d s =
     s\<lparr>tendon_lists := (tendon_lists s)(next_ref s :=
          map (\<lambda>k. pattern_tendon radius d k (2 * pi * real k / real n)) [0..<n]),
       dicts := (dicts s)(current_layout s := (dicts s (current_layout s))\<lparr>l_tendons := next_ref s\<rparr>),
       next_ref := next_ref s + 1\<rparr>"
proof -
  have fold: "(\<lambda>s' (i, angle). append_tendon (pattern_tendon radius d i angle) s')
      = (\<lambda>s' p. append_tendon (case p of (i, angle) \<Rightarrow> pattern_tendon radius d i angle) s')"
    by (auto simp: fun_eq_iff)
  show ?thesis
    unfolding generate_circular_pattern_def Let_def fold foldl_append_tendon enumerate_linspace
    by (simp add: comp_def)
qed

lemma generate_current_tendons:
  "current_tendons (generate_circular_pattern n radius d s) =
     map (\<lambda>k. pattern_tendon radius d k (2 * pi * real k / real n)) [0..<n]"
  unfolding generate_circular_pattern_eq current_tendons_def by simp

lemma generate_other_lists:
  "current_grout_connections (generate_circular_pattern n radius d s) = current_grout_connections s"
  "current_access_shafts (generate_circular_pattern n radius d s) = current_access_shafts s"
  unfolding generate_circular_pattern_eq current_grout_connections_def current_access_shafts_def
  by simp_all

lemma distance_pattern_tendon: "distance (pattern_tendon radius d k a) = \<bar>radius\<bar>"
proof -
  have "(radius * cos a)^2 + (radius * sin a)^2 = radius^2 * ((cos a)^2 + (sin a)^2)"
    by (simp only: power_mult_distrib distrib_left)
  also have "\<dots> = radius^2"
    by (simp add: sin_cos_squared_add2)
  finally have "sqrt ((radius * cos a)^2 + (radius * sin a)^2) = \<bar>radius\<bar>"
    by simp
  then show ?thesis unfolding distance_def pattern_tendon_def by simp
qed

lemma load_buttons_other: "(\<And>i. ev \<noteq> LoadLayout i) \<Longrightarrow> load_buttons ev xs s = s"
  by (induction xs) auto

lemma run_generate:
  "run nm (GenerateCircularPattern n radius d) s = set_name nm (generate_circular_pattern n radius d s)"
  by (simp add: run_def load_buttons_other)

lemma set_name_lists [simp]:
  "current_tendons (set_name nm s) = current_tendons s"
  "current_grout_connections (set_name nm s) = current_grout_connections s"
  "current_access_shafts (set_name nm s) = current_access_shafts s"
  by (simp_all add: set_name_def current_tendons_def current_grout_connections_def
      current_access_shafts_def)

text \<open>
  C4. Generate Circular Pattern replaces the tendon list, whatever it held, by \<open>n\<close>
  tendons; tendon \<open>k\<close> has id \<open>k\<close>, the angle \<open>2 * pi * k / n\<close> and the coordinates
  \<open>radius * cos angle\<close>, \<open>radius * sin angle\<close>. The angles start at 0, stay below
  \<open>2 * pi\<close> and grow by \<open>2 * pi / n\<close>. Every tendon lies at distance \<open>\<bar>radius\<bar>\<close> from
  the origin, which is \<open>radius\<close> for the radii the slider gives (at least 2.0). The
  other two lists are left as they were.
\<close>

theorem circular_pattern:
  "current_tendons (generate_circular_pattern n radius d s) =
     map (\<lambda>k. \<lparr>t_id = k, t_x = radius * cos (2 * pi * real k / real n),
                t_y = radius * sin (2 * pi * real k / real n),
                t_diameter = d, t_type = ''vertical''\<rparr>) [0..<n]
   \<and> current_tendons (run nm (GenerateCircularPattern n radius d) s) =
       current_tendons (generate_circular_pattern n radius d s)
   \<and> length (current_tendons (generate_circular_pattern n radius d s)) = n
   \<and> map t_id (current_tendons (generate_circular_pattern n radius d s)) = [0..<n]
   \<and> linspace 0 (2 * pi) n = map (\<lambda>k. 2 * pi * real k / real n) [0..<n]
   \<and> (0 < n \<longrightarrow> linspace 0 (2 * pi) n ! 0 = 0)
   \<and> (Suc k < n \<longrightarrow> linspace 0 (2 * pi) n ! Suc k - linspace 0 (2 * pi) n ! k = 2 * pi / real n)
   \<and> (\<forall>a \<in> set (linspace 0 (2 * pi) n). 0 \<le> a \<and> a < 2 * pi)
   \<and> (\<forall>t \<in> set (current_tendons (generate_circular_pattern n radius d s)).
         distance t = \<bar>radius\<bar>)
   \<and> (0 \<le> radius \<longrightarrow>
        (\<forall>t \<in> set (current_tendons (generate_circular_pattern n radius d s)).
           distance t = radius))
   \<and> current_grout_connections (generate_circular_pattern n radius d s)
       = current_grout_connections s
   \<and> current_access_shafts (generate_circular_pattern n radius d s) = current_access_shafts s"
proof -
  let ?ts = "current_tendons (generate_circular_pattern n radius d s)"
  have list: "?ts = map (\<lambda>k. \<lparr>t_id = k, t_x = radius * cos (2 * pi * real k / real n),
                t_y = radius * sin (2 * pi * real k / real n),
                t_diameter = d, t_type = ''vertical''\<rparr>) [0..<n]"
    by (simp add: generate_current_tendons pattern_tendon_def)
  have through_run: "current_tendons (run nm (GenerateCircularPattern n radius d) s) = ?ts"
    by (simp add: run_generate)
  have len: "length ?ts = n"
    by (simp add: generate_current_tendons)
  have ids: "map t_id ?ts = [0..<n]"
    by (simp add: generate_current_tendons pattern_tendon_def comp_def)
  have first: "0 < n \<longrightarrow> linspace 0 (2 * pi) n ! 0 = 0"
    by (simp add: linspace_angles)
  have step: "Suc k < n \<longrightarrow>
      linspace 0 (2 * pi) n ! Suc k - linspace 0 (2 * pi) n ! k = 2 * pi / real n"
  proof
    assume k: "Suc k < n"
    then have "linspace 0 (2 * pi) n ! Suc k = 2 * pi * real (Suc k) / real n"
      and "linspace 0 (2 * pi) n ! k = 2 * pi * real k / real n"
      by (simp_all add: linspace_angles)
    then have "linspace 0 (2 * pi) n ! Suc k - linspace 0 (2 * pi) n ! k
        = (2 * pi * real (Suc k) - 2 * pi * real k) / real n"
      by (simp add: diff_divide_distrib)
    also have "\<dots> = 2 * pi / real n"
      by (simp add: algebra_simps)
    finally show "linspace 0 (2 * pi) n ! Suc k - linspace 0 (2 * pi) n ! k = 2 * pi / real n" .
  qed
  have turn: "\<forall>a \<in> set (linspace 0 (2 * pi) n). 0 \<le> a \<and> a < 2 * pi"
  proof
    fix a assume "a \<in> set (linspace 0 (2 * pi) n)"
    then obtain k where k: "k < n" and a: "a = 2 * pi * real k / real n"
      by (auto simp: linspace_angles)
    have "real k / real n < 1" using k by simp
    then have "2 * pi * (real k / real n) < 2 * pi * 1"
      by (intro mult_strict_left_mono) simp_all
    then show "0 \<le> a \<and> a < 2 * pi" using a by simp
  qed
  have offset: "\<forall>t \<in> set ?ts. distance t = \<bar>radius\<bar>"
    by (auto simp: generate_current_tendons distance_pattern_tendon)
  then have offset': "0 \<le> radius \<longrightarrow> (\<forall>t \<in> set ?ts. distance t = radius)"
    by simp
  show ?thesis
    using list through_run len ids linspace_angles [of n] first step turn offset offset'
      generate_other_lists [of n radius d s]
    by blast
qed

theorem circular_pattern_witness:
  "(0::real) \<le> 4 \<and> Suc 0 < (8::nat)
   \<and> map t_id (current_tendons (generate_circular_pattern 8 4 150 init_session)) = [0..<8]
   \<and> distance (current_tendons (generate_circular_pattern 8 4 150 init_session) ! 2) = 4
   \<and> linspace 0 (2 * pi) 8 ! Suc 0 - linspace 0 (2 * pi) 8 ! 0 = 2 * pi / real (8::nat)
   \<and> current_tendons (generate_circular_pattern 8 4 150 init_session) ! 0
       = \<lparr>t_id = 0, t_x = 4, t_y = 0, t_diameter = 150, t_type = ''vertical''\<rparr>"
proof -
  let ?ts = "current_tendons (generate_circular_pattern 8 4 150 init_session)"
  note inst = circular_pattern [where n = 8 and radius = 4 and d = 150 and s = init_session and nm = "[]" and k = 0]
  have h1: "(0::real) \<le> 4" and h2: "Suc 0 < (8::nat)" by simp_all
  have len: "length ?ts = 8" using inst by blast
  then have mem: "?ts ! 2 \<in> set ?ts" by simp
  have "\<forall>t \<in> set ?ts. distance t = 4" using inst h1 by blast
  then have d: "distance (?ts ! 2) = 4" using mem by blast
  have ids: "map t_id ?ts = [0..<8]" using inst by blast
  have step: "linspace 0 (2 * pi) 8 ! Suc 0 - linspace 0 (2 * pi) 8 ! 0 = 2 * pi / real (8::nat)"
    using inst h2 by blast
  have "?ts = map (\<lambda>k. \<lparr>t_id = k, t_x = 4 * cos (2 * pi * real k / real (8::nat)),
                t_y = 4 * sin (2 * pi * real k / real (8::nat)),
                t_diameter = 150, t_type = ''vertical''\<rparr>) [0..<8]"
    using inst by blast
  then have first: "?ts ! 0 = \<lparr>t_id = 0, t_x = 4, t_y = 0, t_diameter = 150, t_type = ''vertical''\<rparr>"
    by simp
  show ?thesis using h1 h2 d ids step first by blast
qed

lemma clear_all_components_empty:
  "current_tendons (clear_all_components s) = []
   \<and> current_grout_connections (clear_all_components s) = []
   \<and> current_access_shafts (clear_all_components s) = []"
  by (simp add: clear_all_components_def current_tendons_def current_grout_connections_def
      current_access_shafts_def Let_def)

lemma run_clear_all: "run nm ClearAllComponents s = clear_all_components s"
  by (simp add: run_def)

lemma complexity_bounds: "2 \<le> complexity ts gs \<and> complexity ts gs \<le> 10"
  unfolding complexity_def by simp

text \<open>
  C5. The steel mass is 150 per tendon, the cost is the mass times 3.50, and the score is
  \<open>min 10 (2 + 0.3 * tendons + 0.5 * grout connections)\<close>, which lies between 2 and 10.
  Eight tendons give 1200 and 4200, and with no grout connection the score 4.4. The empty
  layout gives 0, 0 and 2; Clear All Components leaves the three lists empty, so the
  estimates after it are these.
\<close>

theorem estimate_values:
  "estimate ts gs = (total_steel ts, steel_cost ts, complexity ts gs)
   \<and> total_steel ts = length ts * 150
   \<and> steel_cost ts = real (total_steel ts) * (350 / 100)
   \<and> complexity ts gs = min 10 (2 + real (length ts) * (3 / 10) + real (length gs) * (5 / 10))
   \<and> 2 \<le> complexity ts gs \<and> complexity ts gs \<le> 10
   \<and> (length ts = 8 \<longrightarrow> total_steel ts = 1200 \<and> steel_cost ts = 4200)
   \<and> (length ts = 8 \<and> gs = [] \<longrightarrow> complexity ts gs = 44 / 10)
   \<and> estimate [] [] = (0, 0, 2)
   \<and> estimate (current_tendons (run nm ClearAllComponents s))
        (current_grout_connections (run nm ClearAllComponents s)) = (0, 0, 2)
   \<and> current_access_shafts (run nm ClearAllComponents s) = []"
proof -
  have eight: "length ts = 8 \<longrightarrow> total_steel ts = 1200 \<and> steel_cost ts = 4200"
    by (simp add: total_steel_def steel_cost_def steel_per_tendon_def steel_cost_per_kg_def)
  have score: "length ts = 8 \<and> gs = [] \<longrightarrow> complexity ts gs = 44 / 10"
    by (simp add: complexity_def)
  have empty: "estimate [] [] = (0, 0, 2)"
    by (simp add: estimate_def total_steel_def steel_cost_def complexity_def)
  have cleared: "estimate (current_tendons (run nm ClearAllComponents s))
        (current_grout_connections (run nm ClearAllComponents s)) = (0, 0, 2)"
    by (simp add: run_clear_all clear_all_components_empty empty)
  have shafts: "current_access_shafts (run nm ClearAllComponents s) = []"
    by (simp add: run_clear_all clear_all_components_empty)
  have steel: "total_steel ts = length ts * 150"
    by (simp add: total_steel_def steel_per_tendon_def)
  have cost: "steel_cost ts = real (total_steel ts) * (350 / 100)"
    by (simp add: steel_cost_def steel_cost_per_kg_def)
  show ?thesis
    using eight score empty cleared shafts steel cost complexity_bounds [of ts gs]
    by (simp add: estimate_def complexity_def)
qed

theorem estimate_values_witness:
  "estimate (current_tendons (run [] (GenerateCircularPattern 8 4 150) init_session))
     (current_grout_connections (run [] (GenerateCircularPattern 8 4 150) init_session))
     = (1200, 4200, 44 / 10)"
proof -
  let ?s = "run [] (GenerateCircularPattern 8 4 150) init_session"
  have len: "length (current_tendons ?s) = 8"
    by (simp add: run_generate generate_current_tendons)
  have "current_grout_connections ?s = current_grout_connections init_session"
    by (simp add: run_generate generate_other_lists)
  also have "\<dots> = []"
    by (simp add: current_grout_connections_def init_session_def)
  finally have none: "current_grout_connections ?s = []" .
  have "total_steel (current_tendons ?s) = 1200 \<and> steel_cost (current_tendons ?s) = 4200
      \<and> complexity (current_tendons ?s) (current_grout_connections ?s) = 44 / 10"
    using estimate_values [of "current_tendons ?s" "current_grout_connections ?s"] len none
    by blast
  then show ?thesis by (simp add: estimate_def)
qed

lemma tendon_dict_keys: "map fst (tendon_dict t) = [''id'', ''x'', ''y'', ''diameter'', ''type'']"
  by (simp add: tendon_dict_def)

lemma columns_stable:
  "foldl (\<lambda>cs d. cs @ filter (\<lambda>k. k \<notin> set cs) (remdups (map fst d)))
      [''id'', ''x'', ''y'', ''diameter'', ''type''] (map tendon_dict ts)
     = [''id'', ''x'', ''y'', ''diameter'', ''type'']"
  by (induction ts) (simp_all add: tendon_dict_keys)

lemma DataFrame_columns:
  "ts \<noteq> [] \<Longrightarrow>
     columns (DataFrame (map tendon_dict ts)) = [''id'', ''x'', ''y'', ''diameter'', ''type'']"
proof (cases ts)
  case Nil
  assume "ts \<noteq> []"
  with Nil show ?thesis by simp
next
  case (Cons t rest)
  have "foldl (\<lambda>cs d. cs @ filter (\<lambda>k. k \<notin> set cs) (remdups (map fst d))) []
          (map tendon_dict (t # rest))
      = foldl (\<lambda>cs d. cs @ filter (\<lambda>k. k \<notin> set cs) (remdups (map fst d)))
          [''id'', ''x'', ''y'', ''diameter'', ''type''] (map tendon_dict rest)"
    by (simp add: tendon_dict_keys)
  then show ?thesis
    unfolding Cons DataFrame_def Let_def by (simp add: columns_stable)
qed

lemma tendon_row:
  "map (map_of (tendon_dict t)) [''id'', ''x'', ''y'', ''diameter'', ''type'']
     = [Some (IntCell (int (t_id t))), Some (FloatCell (t_x t)), Some (FloatCell (t_y t)),
        Some (IntCell (t_diameter t)), Some (StrCell (t_type t))]"
  by (simp add: tendon_dict_def)

lemma DataFrame_rows:
  assumes "ts \<noteq> []"
  shows "rows (DataFrame (map tendon_dict ts))
     = map (\<lambda>t. [Some (IntCell (int (t_id t))), Some (FloatCell (t_x t)), Some (FloatCell (t_y t)),
                  Some (IntCell (t_diameter t)), Some (StrCell (t_type t))]) ts"
proof -
  have "rows (DataFrame (map tendon_dict ts))
      = map (\<lambda>d. map (map_of d) (columns (DataFrame (map tendon_dict ts)))) (map tendon_dict ts)"
    by (simp add: DataFrame_def Let_def)
  then show ?thesis
    by (simp add: DataFrame_columns [OF assms] comp_def tendon_dict_def)
qed

text \<open>
  C9. For a tendon list that is not empty the export has the columns
  \<open>id, x, y, diameter, type\<close> in this order, one row per tendon in list order, and the
  text is the header line followed by one line per tendon. For the empty list there is
  no export.
\<close>

theorem export_tendons_csv_shape:
  "export_tendons_csv render [] = None
   \<and> (ts \<noteq> [] \<longrightarrow>
        columns (DataFrame (map tendon_dict ts)) = [''id'', ''x'', ''y'', ''diameter'', ''type'']
      \<and> length (rows (DataFrame (map tendon_dict ts))) = length ts
      \<and> rows (DataFrame (map tendon_dict ts))
          = map (\<lambda>t. [Some (IntCell (int (t_id t))), Some (FloatCell (t_x t)),
                       Some (FloatCell (t_y t)), Some (IntCell (t_diameter t)),
                       Some (StrCell (t_type t))]) ts
      \<and> export_tendons_csv render ts =
          Some (''id,x,y,diameter,type'' @ [CHR 0x0A]
            @ concat (map (\<lambda>t. render (IntCell (int (t_id t))) @ '','' @ render (FloatCell (t_x t))
                  @ '','' @ render (FloatCell (t_y t)) @ '','' @ render (IntCell (t_diameter t))
                  @ '','' @ render (StrCell (t_type t)) @ [CHR 0x0A]) ts)))"
proof -
  have none: "export_tendons_csv render [] = None"
    by (simp add: export_tendons_csv_def)
  have shape: "export_tendons_csv render ts =
          Some (''id,x,y,diameter,type'' @ [CHR 0x0A]
            @ concat (map (\<lambda>t. render (IntCell (int (t_id t))) @ '','' @ render (FloatCell (t_x t))
                  @ '','' @ render (FloatCell (t_y t)) @ '','' @ render (IntCell (t_diameter t))
                  @ '','' @ render (StrCell (t_type t)) @ [CHR 0x0A]) ts))"
    if "ts \<noteq> []"
    using that
    by (simp add: export_tendons_csv_def to_csv_def DataFrame_columns DataFrame_rows
        render_cell_def comp_def)
  show ?thesis
    using none shape DataFrame_columns [of ts] DataFrame_rows [of ts] by simp
qed

theorem export_tendons_csv_shape_witness:
  "export_tendons_csv (\<lambda>c. case c of StrCell v \<Rightarrow> v | IntCell i \<Rightarrow> (if i = 0 then ''0'' else ''150'')
                              | FloatCell r \<Rightarrow> (if r = 0 then ''0.0'' else ''4.0''))
     [\<lparr>t_id = 0, t_x = 4, t_y = 0, t_diameter = 150, t_type = ''vertical''\<rparr>]
   = Some (''id,x,y,diameter,type'' @ [CHR 0x0A] @ ''0,4.0,0.0,150,vertical'' @ [CHR 0x0A])"
  using export_tendons_csv_shape [of
      "\<lambda>c. case c of StrCell v \<Rightarrow> v | IntCell i \<Rightarrow> (if i = 0 then ''0'' else ''150'')
                              | FloatCell r \<Rightarrow> (if r = 0 then ''0.0'' else ''4.0'')"
      "[\<lparr>t_id = 0, t_x = 4, t_y = 0, t_diameter = 150, t_type = ''vertical''\<rparr>]"]
  by simp

section \<open>Properties of the session\<close>

lemma init_session_ok: "session_ok init_session"
  by (simp add: session_ok_def layout_ok_def init_session_def)

lemma extends_refl: "session_ok s \<Longrightarrow> extends s s"
  by (simp add: extends_def)

lemma extends_trans: "extends s s' \<Longrightarrow> extends s' s'' \<Longrightarrow> extends s s''"
  unfolding extends_def by auto

lemma extends_ok: "extends s s' \<Longrightarrow> session_ok s'"
  by (simp add: extends_def)

lemma frame_saved:
  assumes ok: "session_ok s" and fr: "frame s s'" and d: "d \<in> set (layouts s)"
  shows "snapshot s' d = snapshot s d \<and> layout_ok s' d \<and> separate s' d"
proof -
  from ok d have lo: "layout_ok s d" and sep: "separate s d"
    by (simp_all add: session_ok_def)
  from lo sep fr have same: "dicts s' d = dicts s d"
    by (simp add: layout_ok_def separate_def frame_def)
  from lo sep fr have lists:
    "tendon_lists s' (l_tendons (dicts s d)) = tendon_lists s (l_tendons (dicts s d))"
    "grout_lists s' (l_grout_connections (dicts s d)) = grout_lists s (l_grout_connections (dicts s d))"
    "shaft_lists s' (l_access_shafts (dicts s d)) = shaft_lists s (l_access_shafts (dicts s d))"
    by (simp_all add: layout_ok_def separate_def frame_def)
  have snap: "snapshot s' d = snapshot s d"
    by (simp add: snapshot_def same lists)
  from fr have le: "next_ref s \<le> next_ref s'" by (simp add: frame_def)
  have lo': "layout_ok s' d"
    using lo le by (simp add: layout_ok_def same lists)
  from fr have cur: "current_layout s' = current_layout s \<or> next_ref s \<le> current_layout s'"
    and t: "l_tendons (dicts s' (current_layout s')) = l_tendons (dicts s (current_layout s))
          \<or> next_ref s \<le> l_tendons (dicts s' (current_layout s'))"
    and g: "l_grout_connections (dicts s' (current_layout s'))
            = l_grout_connections (dicts s (current_layout s))
          \<or> next_ref s \<le> l_grout_connections (dicts s' (current_layout s'))"
    and a: "l_access_shafts (dicts s' (current_layout s')) = l_access_shafts (dicts s (current_layout s))
          \<or> next_ref s \<le> l_access_shafts (dicts s' (current_layout s'))"
    by (simp_all add: frame_def)
  have d1: "d \<noteq> current_layout s'"
    using cur lo sep by (auto simp: layout_ok_def separate_def)
  have d2: "l_tendons (dicts s d) \<noteq> l_tendons (dicts s' (current_layout s'))"
    using t lo sep by (auto simp: layout_ok_def separate_def)
  have d3: "l_grout_connections (dicts s d) \<noteq> l_grout_connections (dicts s' (current_layout s'))"
    using g lo sep by (auto simp: layout_ok_def separate_def)
  have d4: "l_access_shafts (dicts s d) \<noteq> l_access_shafts (dicts s' (current_layout s'))"
    using a lo sep by (auto simp: layout_ok_def separate_def)
  have sep': "separate s' d"
    using d1 d2 d3 d4 by (simp add: separate_def same)
  from snap lo' sep' show ?thesis by simp
qed

lemma extends_intro:
  assumes ok: "session_ok s" and fr: "frame s s'"
    and cur: "layout_ok s' (current_layout s')"
    and app: "layouts s' = layouts s @ new"
    and new: "\<forall>d \<in> set new. layout_ok s' d \<and> separate s' d"
  shows "extends s s'"
proof -
  have old: "\<forall>d \<in> set (layouts s). snapshot s' d = snapshot s d \<and> layout_ok s' d \<and> separate s' d"
    using frame_saved [OF ok fr] by blast
  then have "session_ok s'"
    using cur new app by (auto simp: session_ok_def)
  with old app show ?thesis by (auto simp: extends_def)
qed

lemma add_tendon_frame: "frame s (add_tendon x y d s)"
  by (simp add: frame_def add_tendon_def append_tendon_def Let_def)

lemma add_tendon_current:
  "layout_ok s (current_layout s) \<Longrightarrow>
     layout_ok (add_tendon x y d s) (current_layout (add_tendon x y d s))"
  by (simp add: layout_ok_def add_tendon_def append_tendon_def current_tendons_def Let_def)

lemma add_tendon_extends: "session_ok s \<Longrightarrow> extends s (add_tendon x y d s)"
  by (rule extends_intro [where new = "[]"])
     (simp_all add: add_tendon_frame add_tendon_current session_ok_def,
      simp add: add_tendon_def append_tendon_def Let_def)

lemma add_grout_frame: "frame s (add_grout_connection x y d s)"
  by (simp add: frame_def add_grout_connection_def append_grout_def Let_def)

lemma add_grout_current:
  "layout_ok s (current_layout s) \<Longrightarrow>
     layout_ok (add_grout_connection x y d s) (current_layout (add_grout_connection x y d s))"
  by (simp add: layout_ok_def add_grout_connection_def append_grout_def
      current_grout_connections_def Let_def)

lemma add_grout_extends: "session_ok s \<Longrightarrow> extends s (add_grout_connection x y d s)"
  by (rule extends_intro [where new = "[]"])
     (simp_all add: add_grout_frame add_grout_current session_ok_def,
      simp add: add_grout_connection_def append_grout_def Let_def)

lemma add_shaft_frame: "frame s (add_access_shaft x y d s)"
  by (simp add: frame_def add_access_shaft_def append_shaft_def Let_def)

lemma add_shaft_current:
  "layout_ok s (current_layout s) \<Longrightarrow>
     layout_ok (add_access_shaft x y d s) (current_layout (add_access_shaft x y d s))"
  by (simp add: layout_ok_def add_access_shaft_def append_shaft_def
      current_access_shafts_def Let_def)

lemma add_shaft_extends: "session_ok s \<Longrightarrow> extends s (add_access_shaft x y d s)"
  by (rule extends_intro [where new = "[]"])
     (simp_all add: add_shaft_frame add_shaft_current session_ok_def,
      simp add: add_access_shaft_def append_shaft_def Let_def)

lemma generate_frame: "frame s (generate_circular_pattern n r d s)"
  by (simp add: frame_def generate_circular_pattern_eq)

lemma generate_current:
  "layout_ok s (current_layout s) \<Longrightarrow>
     layout_ok (generate_circular_pattern n r d s)
       (current_layout (generate_circular_pattern n r d s))"
  by (simp add: layout_ok_def generate_circular_pattern_eq pattern_tendon_def comp_def)

lemma generate_extends: "session_ok s \<Longrightarrow> extends s (generate_circular_pattern n r d s)"
  by (rule extends_intro [where new = "[]"])
     (simp_all add: generate_frame generate_current session_ok_def,
      simp add: generate_circular_pattern_eq)

lemma clear_frame: "frame s (clear_all_components s)"
  by (simp add: frame_def clear_all_components_def Let_def)

lemma clear_current:
  "layout_ok s (current_layout s) \<Longrightarrow>
     layout_ok (clear_all_components s) (current_layout (clear_all_components s))"
  by (simp add: layout_ok_def clear_all_components_def Let_def)

lemma clear_extends: "session_ok s \<Longrightarrow> extends s (clear_all_components s)"
  by (rule extends_intro [where new = "[]"])
     (simp_all add: clear_frame clear_current session_ok_def,
      simp add: clear_all_components_def Let_def)

lemma set_name_frame: "frame s (set_name nm s)"
  by (simp add: frame_def set_name_def)

lemma set_name_current:
  "layout_ok s (current_layout s) \<Longrightarrow> layout_ok (set_name nm s) (current_layout (set_name nm s))"
  by (simp add: layout_ok_def set_name_def)

lemma set_name_extends: "session_ok s \<Longrightarrow> extends s (set_name nm s)"
  by (rule extends_intro [where new = "[]"])
     (simp_all add: set_name_frame set_name_current session_ok_def,
      simp add: set_name_def)

lemma set_foundation_extends:
  "session_ok s \<Longrightarrow> extends s (s\<lparr>foundation_diameter := fd, wall_thickness := wt\<rparr>)"
  by (rule extends_intro [where new = "[]"])
     (simp_all add: frame_def layout_ok_def session_ok_def)

lemma save_frame: "frame s (save_layout nm now s)"
  by (simp add: frame_def save_layout_def Let_def)

lemma save_current:
  "layout_ok s (current_layout s) \<Longrightarrow>
     layout_ok (save_layout nm now s) (current_layout (save_layout nm now s))"
  by (simp add: layout_ok_def save_layout_def Let_def)

lemma save_layouts: "layouts (save_layout nm now s) = layouts s @ [next_ref s + 3]"
  by (simp add: save_layout_def Let_def)

lemma save_new:
  "layout_ok s (current_layout s) \<Longrightarrow>
     layout_ok (save_layout nm now s) (next_ref s + 3)
     \<and> separate (save_layout nm now s) (next_ref s + 3)"
  by (simp add: layout_ok_def separate_def save_layout_def Let_def)

lemma save_extends: "session_ok s \<Longrightarrow> extends s (save_layout nm now s)"
  by (rule extends_intro [where new = "[next_ref s + 3]"])
     (simp_all add: save_frame save_current save_layouts save_new session_ok_def)

lemma save_snapshot:
  "layout_ok s (current_layout s) \<Longrightarrow>
     snapshot (save_layout nm now s) (next_ref s + 3)
       = (nm, Some now, current_tendons s, current_grout_connections s, current_access_shafts s,
          Some (foundation_diameter s), Some (wall_thickness s))"
  by (simp add: layout_ok_def snapshot_def save_layout_def Let_def current_tendons_def
      current_grout_connections_def current_access_shafts_def)

lemma load_frame: "frame s (load_layout d s)"
  by (simp add: frame_def load_layout_def Let_def)

lemma load_current:
  "layout_ok s d \<Longrightarrow> layout_ok (load_layout d s) (current_layout (load_layout d s))"
  by (simp add: layout_ok_def load_layout_def Let_def)

lemma load_extends: "session_ok s \<Longrightarrow> d \<in> set (layouts s) \<Longrightarrow> extends s (load_layout d s)"
  by (rule extends_intro [where new = "[]"])
     (simp_all add: load_frame load_current session_ok_def, simp add: load_layout_def Let_def)

lemma load_result:
  "layout_ok s d \<Longrightarrow>
     l_name (dicts (load_layout d s) (current_layout (load_layout d s))) = l_name (dicts s d) @ '' (copy)''
     \<and> current_tendons (load_layout d s) = tendon_lists s (l_tendons (dicts s d))
     \<and> current_grout_connections (load_layout d s) = grout_lists s (l_grout_connections (dicts s d))
     \<and> current_access_shafts (load_layout d s) = shaft_lists s (l_access_shafts (dicts s d))
     \<and> l_tendons (dicts (load_layout d s) (current_layout (load_layout d s))) \<noteq> l_tendons (dicts s d)
     \<and> l_grout_connections (dicts (load_layout d s) (current_layout (load_layout d s)))
         \<noteq> l_grout_connections (dicts s d)
     \<and> l_access_shafts (dicts (load_layout d s) (current_layout (load_layout d s)))
         \<noteq> l_access_shafts (dicts s d)
     \<and> l_foundation_diameter (dicts (load_layout d s) (current_layout (load_layout d s))) = None
     \<and> l_wall_thickness (dicts (load_layout d s) (current_layout (load_layout d s))) = None
     \<and> foundation_diameter (load_layout d s) = foundation_diameter s
     \<and> wall_thickness (load_layout d s) = wall_thickness s
     \<and> layouts (load_layout d s) = layouts s"
  by (simp add: layout_ok_def load_layout_def Let_def current_tendons_def
      current_grout_connections_def current_access_shafts_def)

lemma load_buttons_pressed:
  "load_buttons (LoadLayout i) (List.enumerate k ls) s =
     (if k \<le> i \<and> i < k + length ls then load_layout (ls ! (i - k)) s else s)"
proof (induction ls arbitrary: k)
  case Nil
  show ?case by auto
next
  case (Cons l ls)
  show ?case
  proof (cases "i = k")
    case True
    then show ?thesis by simp
  next
    case False
    have "load_buttons (LoadLayout i) (List.enumerate k (l # ls)) s
        = load_buttons (LoadLayout i) (List.enumerate (Suc k) ls) s"
      using False by simp
    also have "\<dots> = (if Suc k \<le> i \<and> i < Suc k + length ls
        then load_layout (ls ! (i - Suc k)) s else s)"
      by (rule Cons.IH)
    also have "\<dots> = (if k \<le> i \<and> i < k + length (l # ls)
        then load_layout ((l # ls) ! (i - k)) s else s)"
    proof (cases "Suc k \<le> i")
      case True
      then have "i - k = Suc (i - Suc k)" by arith
      with True show ?thesis by simp
    next
      case no: False
      with False show ?thesis by simp
    qed
    finally show ?thesis .
  qed
qed

lemma load_buttons_extends:
  "session_ok s \<Longrightarrow> snd ` set xs \<subseteq> set (layouts s) \<Longrightarrow> extends s (load_buttons ev xs s)"
proof (induction xs)
  case Nil
  then show ?case by (simp add: extends_refl)
next
  case (Cons x xs)
  obtain i layout where x: "x = (i, layout)" by (cases x)
  show ?case
  proof (cases "ev = LoadLayout i")
    case True
    with Cons.prems x show ?thesis by (simp add: load_extends)
  next
    case False
    with Cons x show ?thesis by simp
  qed
qed

lemma snd_enumerate: "snd ` set (List.enumerate k ls) = set ls"
  by (metis map_snd_enumerate set_map)

lemma sidebar_extends: "session_ok s \<Longrightarrow> extends s (sidebar ev s)"
  by (cases ev)
     (simp_all add: extends_refl set_foundation_extends generate_extends add_tendon_extends
        add_grout_extends add_shaft_extends)

lemma run_extends:
  assumes ok: "session_ok s"
  shows "extends s (run nm ev s)"
proof -
  let ?s1 = "sidebar ev s"
  have e1: "extends s ?s1" using ok by (rule sidebar_extends)
  show ?thesis
  proof (cases "ev = ClearAllComponents")
    case True
    then show ?thesis using ok by (simp add: run_def clear_extends)
  next
    case False
    let ?s2 = "set_name nm ?s1"
    let ?s3 = "case ev of SaveLayout now \<Rightarrow> save_layout nm now ?s2 | _ \<Rightarrow> ?s2"
    have e2: "extends ?s1 ?s2" using e1 by (intro set_name_extends extends_ok)
    have e3: "extends ?s2 ?s3"
      using extends_ok [OF e2] by (cases ev) (simp_all add: extends_refl save_extends)
    have e4: "extends ?s3 (load_buttons ev (List.enumerate 0 (layouts ?s3)) ?s3)"
      using extends_ok [OF e3] by (intro load_buttons_extends) (simp_all add: snd_enumerate)
    have "run nm ev s = load_buttons ev (List.enumerate 0 (layouts ?s3)) ?s3"
      using False by (simp add: run_def Let_def)
    moreover have "extends s ?s3"
      using e1 e2 e3 by (blast intro: extends_trans)
    ultimately show ?thesis
      using e4 by (simp add: extends_trans)
  qed
qed

lemma runs_Nil: "runs [] s = s"
  by (simp add: runs_def)

lemma runs_Cons: "runs ((nm, ev) # xs) s = runs xs (run nm ev s)"
  by (simp add: runs_def)

lemma runs_append: "runs (xs @ ys) s = runs ys (runs xs s)"
  by (simp add: runs_def)

lemma runs_extends: "session_ok s \<Longrightarrow> extends s (runs xs s)"
proof (induction xs arbitrary: s)
  case Nil
  then show ?case by (simp add: runs_Nil extends_refl)
next
  case (Cons x xs)
  obtain nm ev where x: "x = (nm, ev)" by (cases x)
  have step: "extends s (run nm ev s)" using Cons.prems by (rule run_extends)
  then have "extends (run nm ev s) (runs xs (run nm ev s))"
    by (intro Cons.IH extends_ok)
  with step show ?case unfolding x runs_Cons by (rule extends_trans)
qed

lemma reachable_ok: "session_ok (runs xs init_session)"
  using runs_extends [OF init_session_ok] by (rule extends_ok)

lemma run_save: "run nm (SaveLayout now) s = save_layout nm now (set_name nm s)"
  by (simp add: run_def load_buttons_other)

lemma set_name_fields:
  "layouts (set_name nm s) = layouts s"
  "next_ref (set_name nm s) = next_ref s"
  "foundation_diameter (set_name nm s) = foundation_diameter s"
  "wall_thickness (set_name nm s) = wall_thickness s"
  by (simp_all add: set_name_def)

lemma run_load:
  "i < length (layouts s) \<Longrightarrow>
     run nm (LoadLayout i) s = load_layout (layouts s ! i) (set_name nm s)"
  by (simp add: run_def load_buttons_pressed set_name_fields)

lemma snapshot_parts:
  "snapshot s' d = snapshot s d \<Longrightarrow>
     l_name (dicts s' d) = l_name (dicts s d)
     \<and> tendon_lists s' (l_tendons (dicts s' d)) = tendon_lists s (l_tendons (dicts s d))
     \<and> grout_lists s' (l_grout_connections (dicts s' d))
         = grout_lists s (l_grout_connections (dicts s d))
     \<and> shaft_lists s' (l_access_shafts (dicts s' d)) = shaft_lists s (l_access_shafts (dicts s d))"
  by (simp add: snapshot_def Let_def)

lemma add_tendon_current_tendons:
  "current_tendons (add_tendon x y d s) =
     current_tendons s @ [\<lparr>t_id = length (current_tendons s), t_x = x, t_y = y,
                           t_diameter = d, t_type = ''vertical''\<rparr>]"
  by (simp add: add_tendon_def append_tendon_def current_tendons_def Let_def)

lemma add_grout_current_grout:
  "current_grout_connections (add_grout_connection x y d s) =
     current_grout_connections s @ [\<lparr>g_id = length (current_grout_connections s), g_x = x,
                                     g_y = y, g_diameter = d\<rparr>]"
  by (simp add: add_grout_connection_def append_grout_def current_grout_connections_def Let_def)

lemma add_shaft_current_shafts:
  "current_access_shafts (add_access_shaft x y d s) =
     current_access_shafts s @ [\<lparr>a_id = length (current_access_shafts s), a_x = x, a_y = y,
                                 a_diameter = d\<rparr>]"
  by (simp add: add_access_shaft_def append_shaft_def current_access_shafts_def Let_def)

lemma nth_of_ids: "map f xs = [0..<length xs] \<Longrightarrow> k < length xs \<Longrightarrow> f (xs ! k) = k"
proof -
  assume eq: "map f xs = [0..<length xs]" and k: "k < length xs"
  have "map f xs ! k = [0..<length xs] ! k" using eq by simp
  then show ?thesis using k by simp
qed

text \<open>The definitions a concrete session is evaluated with.\<close>

lemmas eval_defs = runs_def run_def add_tendon_def append_tendon_def current_tendons_def
  set_name_def save_layout_def clear_all_components_def load_layout_def init_session_def Let_def
  current_grout_connections_def current_access_shafts_def snapshot_def

text \<open>
  C7. In a session reached from the first run, Load Layout with the index of a saved
  layout makes the current layout a new dict: its name is the saved name followed by
  \<^verbatim>\<open> (copy)\<close>, its three lists hold what the saved lists hold, and it has no foundation
  keys. The slider values \<open>foundation_diameter\<close> and \<open>wall_thickness\<close> of the session
  stay as they were, and the saved layout itself reads as before.
\<close>

theorem load_layout_copy:
  fixes xs nm i
  defines "s \<equiv> runs xs init_session"
  defines "d \<equiv> layouts (runs xs init_session) ! i"
  defines "s' \<equiv> run nm (LoadLayout i) (runs xs init_session)"
  shows "i < length (layouts s) \<longrightarrow>
     l_name (dicts s' (current_layout s')) = l_name (dicts s d) @ '' (copy)''
     \<and> current_tendons s' = tendon_lists s (l_tendons (dicts s d))
     \<and> current_grout_connections s' = grout_lists s (l_grout_connections (dicts s d))
     \<and> current_access_shafts s' = shaft_lists s (l_access_shafts (dicts s d))
     \<and> foundation_diameter s' = foundation_diameter s
     \<and> wall_thickness s' = wall_thickness s
     \<and> l_foundation_diameter (dicts s' (current_layout s')) = None
     \<and> l_wall_thickness (dicts s' (current_layout s')) = None
     \<and> layouts s' = layouts s
     \<and> snapshot s' d = snapshot s d"
proof
  assume i: "i < length (layouts s)"
  have ok: "session_ok s" unfolding s_def by (rule reachable_ok)
  from i have d: "d \<in> set (layouts s)" unfolding d_def s_def by simp
  let ?s2 = "set_name nm s"
  have e2: "extends s ?s2" using ok by (rule set_name_extends)
  then have ok2: "session_ok ?s2" by (rule extends_ok)
  have d2: "d \<in> set (layouts ?s2)" using d by (simp add: set_name_fields)
  from ok2 d2 have lo2: "layout_ok ?s2 d" by (simp add: session_ok_def)
  have snap2: "snapshot ?s2 d = snapshot s d" using e2 d by (simp add: extends_def)
  note parts = snapshot_parts [OF snap2]
  have s': "s' = load_layout d ?s2"
    unfolding s'_def d_def using i run_load [of i "runs xs init_session" nm] by (simp add: s_def)
  have snap': "snapshot s' d = snapshot s d"
    using run_extends [OF ok, of nm "LoadLayout i"] d by (simp add: extends_def s'_def s_def)
  show "l_name (dicts s' (current_layout s')) = l_name (dicts s d) @ '' (copy)''
     \<and> current_tendons s' = tendon_lists s (l_tendons (dicts s d))
     \<and> current_grout_connections s' = grout_lists s (l_grout_connections (dicts s d))
     \<and> current_access_shafts s' = shaft_lists s (l_access_shafts (dicts s d))
     \<and> foundation_diameter s' = foundation_diameter s
     \<and> wall_thickness s' = wall_thickness s
     \<and> l_foundation_diameter (dicts s' (current_layout s')) = None
     \<and> l_wall_thickness (dicts s' (current_layout s')) = None
     \<and> layouts s' = layouts s
     \<and> snapshot s' d = snapshot s d"
    unfolding s' using load_result [OF lo2] parts snap' [unfolded s']
    by (simp add: set_name_fields)
qed

theorem load_layout_copy_witness:
  defines "s \<equiv> runs [([], AddTendon 1 0 150), (''A'', SaveLayout ''2026-01-01 10:00''),
                      ([], SetFoundation 12 1), ([], ClearAllComponents)] init_session"
  defines "s' \<equiv> run ''B'' (LoadLayout 0)
                  (runs [([], AddTendon 1 0 150), (''A'', SaveLayout ''2026-01-01 10:00''),
                         ([], SetFoundation 12 1), ([], ClearAllComponents)] init_session)"
  shows "0 < length (layouts s)
     \<and> current_tendons s = []
     \<and> l_foundation_diameter (dicts s (layouts s ! 0)) = Some 10
     \<and> l_name (dicts s' (current_layout s')) = ''A (copy)''
     \<and> current_tendons s'
         = [\<lparr>t_id = 0, t_x = 1, t_y = 0, t_diameter = 150, t_type = ''vertical''\<rparr>]
     \<and> foundation_diameter s' = 12
     \<and> wall_thickness s' = 1"
proof -
  have before: "0 < length (layouts s)" "current_tendons s = []"
    "l_foundation_diameter (dicts s (layouts s ! 0)) = Some 10"
    "l_name (dicts s (layouts s ! 0)) = ''A''"
    "tendon_lists s (l_tendons (dicts s (layouts s ! 0)))
       = [\<lparr>t_id = 0, t_x = 1, t_y = 0, t_diameter = 150, t_type = ''vertical''\<rparr>]"
    "foundation_diameter s = 12" "wall_thickness s = 1"
    unfolding s_def by (simp_all add: eval_defs)
  note inst = load_layout_copy [where i = 0 and nm = "''B''" and
      xs = "[([], AddTendon 1 0 150), (''A'', SaveLayout ''2026-01-01 10:00''),
             ([], SetFoundation 12 1), ([], ClearAllComponents)]"]
  from inst before(1) have after:
    "l_name (dicts s' (current_layout s')) = l_name (dicts s (layouts s ! 0)) @ '' (copy)''"
    "current_tendons s' = tendon_lists s (l_tendons (dicts s (layouts s ! 0)))"
    "foundation_diameter s' = foundation_diameter s"
    "wall_thickness s' = wall_thickness s"
    unfolding s_def s'_def by blast+
  show ?thesis
    using before after by simp
qed

text \<open>
  C8. Take a session reached from the first run and run the script any number of times
  more, with any events. The saved layouts of the session are still there, in the same
  positions, and each reads the same: name, timestamp, the three lists and the recorded
  foundation values. No saved layout shares a list with the current layout. Save
  Layout appends a dict whose lists are new objects holding what the current lists
  hold, with the name in the text input, the timestamp and the two slider values.
\<close>

theorem snapshots_immutable:
  fixes xs ys nm now i
  defines "s \<equiv> runs xs init_session"
  defines "s' \<equiv> runs ys (runs xs init_session)"
  defines "saved \<equiv> run nm (SaveLayout now) (runs xs init_session)"
  shows "(\<forall>d \<in> set (layouts s). snapshot s' d = snapshot s d \<and> separate s d)
     \<and> take (length (layouts s)) (layouts s') = layouts s
     \<and> (i < length (layouts s) \<longrightarrow>
          snapshot s' (layouts s' ! i) = snapshot s (layouts s ! i))
     \<and> layouts saved = layouts s @ [next_ref s + 3]
     \<and> snapshot saved (next_ref s + 3)
         = (nm, Some now, current_tendons s, current_grout_connections s,
            current_access_shafts s, Some (foundation_diameter s), Some (wall_thickness s))
     \<and> separate saved (next_ref s + 3)"
proof -
  have ok: "session_ok s" unfolding s_def by (rule reachable_ok)
  have ext: "extends s s'" unfolding s'_def s_def using reachable_ok by (rule runs_extends)
  then obtain new where new: "layouts s' = layouts s @ new" by (auto simp: extends_def)
  have same: "\<forall>d \<in> set (layouts s). snapshot s' d = snapshot s d \<and> separate s d"
    using ext ok by (simp add: extends_def session_ok_def)
  have prefix: "take (length (layouts s)) (layouts s') = layouts s"
    by (simp add: new)
  have nth: "i < length (layouts s) \<longrightarrow>
          snapshot s' (layouts s' ! i) = snapshot s (layouts s ! i)"
    using same by (simp add: new nth_append)
  let ?s2 = "set_name nm s"
  have ok2: "session_ok ?s2" using set_name_extends [OF ok] by (rule extends_ok)
  then have cur2: "layout_ok ?s2 (current_layout ?s2)" by (simp add: session_ok_def)
  have saved: "saved = save_layout nm now ?s2"
    unfolding saved_def s_def by (rule run_save)
  have l: "layouts saved = layouts s @ [next_ref s + 3]"
    unfolding saved by (simp add: save_layouts set_name_fields)
  have snap: "snapshot saved (next_ref s + 3)
         = (nm, Some now, current_tendons s, current_grout_connections s,
            current_access_shafts s, Some (foundation_diameter s), Some (wall_thickness s))"
    unfolding saved using save_snapshot [OF cur2, of nm now] by (simp add: set_name_fields)
  have sep: "separate saved (next_ref s + 3)"
    unfolding saved using save_new [OF cur2, of nm now] by (simp add: set_name_fields)
  from same prefix nth l snap sep show ?thesis by blast
qed

theorem snapshots_immutable_witness:
  defines "s \<equiv> runs [([], AddTendon 1 0 150), (''A'', SaveLayout ''2026-01-01 10:00'')]
                 init_session"
  defines "s' \<equiv> runs [([], AddTendon 2 0 150), ([], GenerateCircularPattern 8 4 150),
                       ([], ClearAllComponents), (''B'', LoadLayout 0), ([], AddTendon 3 0 150)]
                  (runs [([], AddTendon 1 0 150), (''A'', SaveLayout ''2026-01-01 10:00'')]
                     init_session)"
  shows "0 < length (layouts s)
     \<and> snapshot s' (layouts s' ! 0)
         = (''A'', Some ''2026-01-01 10:00'',
            [\<lparr>t_id = 0, t_x = 1, t_y = 0, t_diameter = 150, t_type = ''vertical''\<rparr>], [], [],
            Some 10, Some (8 / 10))"
proof -
  have before: "0 < length (layouts s)"
    "snapshot s (layouts s ! 0)
       = (''A'', Some ''2026-01-01 10:00'',
          [\<lparr>t_id = 0, t_x = 1, t_y = 0, t_diameter = 150, t_type = ''vertical''\<rparr>], [], [],
          Some 10, Some (8 / 10))"
    unfolding s_def by (simp_all add: eval_defs)
  note inst = snapshots_immutable [where i = 0 and
      xs = "[([], AddTendon 1 0 150), (''A'', SaveLayout ''2026-01-01 10:00'')]" and
      ys = "[([], AddTendon 2 0 150), ([], GenerateCircularPattern 8 4 150),
             ([], ClearAllComponents), (''B'', LoadLayout 0), ([], AddTendon 3 0 150)]"]
  from inst before(1) have "snapshot s' (layouts s' ! 0) = snapshot s (layouts s ! 0)"
    unfolding s_def s'_def by blast
  with before show ?thesis by simp
qed

text \<open>
  C10. In every session reached from the first run, the ids of the current tendons, of
  the current grout connections and of the current access shafts are \<open>0, 1, ...\<close> in
  list order, so the component at position \<open>k\<close> has id \<open>k\<close>; the same holds for the
  lists of every saved layout. Add Tendon, Add Grout Connection and Add Access Shaft
  give the new component the length of its list as id, and Clear All Components
  leaves the three lists empty.
\<close>

theorem ids_sequential:
  fixes xs k x y d w
  defines "s \<equiv> runs xs init_session"
  shows "map t_id (current_tendons s) = [0..<length (current_tendons s)]
     \<and> map g_id (current_grout_connections s) = [0..<length (current_grout_connections s)]
     \<and> map a_id (current_access_shafts s) = [0..<length (current_access_shafts s)]
     \<and> (k < length (current_tendons s) \<longrightarrow> t_id (current_tendons s ! k) = k)
     \<and> (k < length (current_grout_connections s) \<longrightarrow> g_id (current_grout_connections s ! k) = k)
     \<and> (k < length (current_access_shafts s) \<longrightarrow> a_id (current_access_shafts s ! k) = k)
     \<and> (\<forall>l \<in> set (layouts s).
           map t_id (tendon_lists s (l_tendons (dicts s l)))
             = [0..<length (tendon_lists s (l_tendons (dicts s l)))]
         \<and> map g_id (grout_lists s (l_grout_connections (dicts s l)))
             = [0..<length (grout_lists s (l_grout_connections (dicts s l)))]
         \<and> map a_id (shaft_lists s (l_access_shafts (dicts s l)))
             = [0..<length (shaft_lists s (l_access_shafts (dicts s l)))])
     \<and> t_id (last (current_tendons (add_tendon x y d s))) = length (current_tendons s)
     \<and> g_id (last (current_grout_connections (add_grout_connection x y d s)))
         = length (current_grout_connections s)
     \<and> a_id (last (current_access_shafts (add_access_shaft x y w s)))
         = length (current_access_shafts s)
     \<and> current_tendons (clear_all_components s) = []
     \<and> current_grout_connections (clear_all_components s) = []
     \<and> current_access_shafts (clear_all_components s) = []"
proof -
  have ok: "session_ok s" unfolding s_def by (rule reachable_ok)
  then have cur: "layout_ok s (current_layout s)" by (simp add: session_ok_def)
  have t: "map t_id (current_tendons s) = [0..<length (current_tendons s)]"
    and g: "map g_id (current_grout_connections s) = [0..<length (current_grout_connections s)]"
    and a: "map a_id (current_access_shafts s) = [0..<length (current_access_shafts s)]"
    using cur
    by (simp_all add: layout_ok_def current_tendons_def current_grout_connections_def
        current_access_shafts_def)
  have saved: "\<forall>l \<in> set (layouts s).
           map t_id (tendon_lists s (l_tendons (dicts s l)))
             = [0..<length (tendon_lists s (l_tendons (dicts s l)))]
         \<and> map g_id (grout_lists s (l_grout_connections (dicts s l)))
             = [0..<length (grout_lists s (l_grout_connections (dicts s l)))]
         \<and> map a_id (shaft_lists s (l_access_shafts (dicts s l)))
             = [0..<length (shaft_lists s (l_access_shafts (dicts s l)))]"
    using ok by (simp add: session_ok_def layout_ok_def)
  have added: "t_id (last (current_tendons (add_tendon x y d s))) = length (current_tendons s)"
    by (simp add: add_tendon_current_tendons)
  have added_g: "g_id (last (current_grout_connections (add_grout_connection x y d s)))
         = length (current_grout_connections s)"
    by (simp add: add_grout_current_grout)
  have added_a: "a_id (last (current_access_shafts (add_access_shaft x y w s)))
         = length (current_access_shafts s)"
    by (simp add: add_shaft_current_shafts)
  from t g a saved added added_g added_a nth_of_ids [OF t, of k] nth_of_ids [OF g, of k] nth_of_ids [OF a, of k]
    clear_all_components_empty [of s]
  show ?thesis by blast
qed

theorem ids_sequential_witness:
  defines "s \<equiv> runs [([], AddTendon 1 0 150), ([], AddTendon 2 0 150),
       (''A'', SaveLayout ''2026-01-01 10:00''), ([], ClearAllComponents), ([], LoadLayout 0),
       ([], AddTendon 3 0 150)] init_session"
  shows "2 < length (current_tendons s) \<and> t_id (current_tendons s ! 2) = 2
     \<and> layouts s \<noteq> []"
proof -
  have len: "2 < length (current_tendons s)" and saved: "layouts s \<noteq> []"
    unfolding s_def by (simp_all add: eval_defs)
  note inst = ids_sequential [where k = 2 and
      xs = "[([], AddTendon 1 0 150), ([], AddTendon 2 0 150),
       (''A'', SaveLayout ''2026-01-01 10:00''), ([], ClearAllComponents), ([], LoadLayout 0),
       ([], AddTendon 3 0 150)]"]
  from inst len have "t_id (current_tendons s ! 2) = 2"
    unfolding s_def by blast
  with len saved show ?thesis by simp
qed

end
